theory Spec2Isabelle
  imports Main
begin

section \<open>Strings\<close>

text \<open>
  Python strings are modelled as \<^typ>\<open>string\<close>, one \<^typ>\<open>char\<close> per code point, for ASCII
  text (serial identifiers, column names, tier labels and work identifiers are ASCII).
  \<open>str.upper\<close> and \<open>str.lower\<close> change the 26 ASCII letters and nothing else; the mapping
  of letters beyond ASCII is outside the model. \<open>str.strip\<close> removes the ASCII characters
  for which \<open>str.isspace\<close> holds: tab, line feed, vertical tab, form feed, carriage
  return, the four separators 0x1C to 0x1F, and the space.
\<close>

definition is_space :: "char \<Rightarrow> bool" where
  "is_space c = (c \<in> set [CHR 0x09, CHR 0x0A, CHR 0x0B, CHR 0x0C, CHR 0x0D,
                             CHR 0x1C, CHR 0x1D, CHR 0x1E, CHR 0x1F, CHR '' ''])"

definition upper_char :: "char \<Rightarrow> char" where
  "upper_char c =
     (case map_of (zip ''abcdefghijklmnopqrstuvwxyz'' ''ABCDEFGHIJKLMNOPQRSTUVWXYZ'') c of
        Some u \<Rightarrow> u
      | None \<Rightarrow> c)"

definition lower_char :: "char \<Rightarrow> char" where
  "lower_char c =
     (case map_of (zip ''ABCDEFGHIJKLMNOPQRSTUVWXYZ'' ''abcdefghijklmnopqrstuvwxyz'') c of
        Some l \<Rightarrow> l
      | None \<Rightarrow> c)"

definition upper :: "string \<Rightarrow> string" where
  "upper s = map upper_char s"

definition lower :: "string \<Rightarrow> string" where
  "lower s = map lower_char s"

definition strip :: "string \<Rightarrow> string" where
  "strip s = rev (dropWhile is_space (rev (dropWhile is_space s)))"

text \<open>
  \<open>s.replace(pat, "")\<close>: every occurrence of \<open>pat\<close> is deleted, scanning from the left
  and resuming after each deleted occurrence. Both patterns of the source are non-empty
  literals; with an empty pattern the string is returned as it is, as Python does.
\<close>

function str_remove :: "string \<Rightarrow> string \<Rightarrow> string" where
  "str_remove pat [] = []"
| "str_remove pat (c # cs) =
     (if pat \<noteq> [] \<and> take (length pat) (c # cs) = pat
      then str_remove pat (drop (length pat) (c # cs))
      else c # str_remove pat cs)"
  by pat_completeness auto
termination
  by (relation "measure (\<lambda>(pat, s). length s)") auto

text \<open>\<open>pat in s\<close> for strings: \<open>pat\<close> occurs in \<open>s\<close> as a contiguous block.\<close>

fun contains :: "string \<Rightarrow> string \<Rightarrow> bool" where
  "contains pat [] = (pat = [])"
| "contains pat (c # cs) = (take (length pat) (c # cs) = pat \<or> contains pat cs)"

text \<open>\<open>s.split(",")\<close>: the pieces between the separators; never an empty list.\<close>

fun split_on :: "char \<Rightarrow> string \<Rightarrow> string list" where
  "split_on sep [] = [[]]"
| "split_on sep (c # cs) =
     (if c = sep then [] # split_on sep cs
      else (case split_on sep cs of
              [] \<Rightarrow> [[c]]
            | w # ws \<Rightarrow> (c # w) # ws))"

text \<open>\<open>sep.join(xs)\<close>.\<close>

fun join :: "string \<Rightarrow> string list \<Rightarrow> string" where
  "join sep [] = []"
| "join sep [x] = x"
| "join sep (x # y # ys) = x @ sep @ join sep (y # ys)"

section \<open>Identifier normalisation\<close>

text \<open>
  The values the normalisers receive: \<open>None\<close>, a float NaN (a missing cell of a table),
  or a value whose \<open>str()\<close> is the given string.
\<close>

datatype pyval = PyNone | PyNaN | PyStr string

text \<open>
  \<^verbatim>\<open>
  def normalize_issn(x):
      if x is None or (isinstance(x, float) and pd.isna(x)):
          return ""
      return str(x).replace("-", "").strip().upper()
  \<close>
\<close>

fun normalize_issn :: "pyval \<Rightarrow> string" where
  "normalize_issn PyNone = ''''"
| "normalize_issn PyNaN = ''''"
| "normalize_issn (PyStr s) = upper (strip (str_remove ''-'' s))"

text \<open>
  \<^verbatim>\<open>
  def normalize_openalex_id(x):
      if pd.isna(x):
          return ""
      return str(x).replace("https://openalex.org/", "").strip()
  \<close>
\<close>

fun normalize_openalex_id :: "pyval \<Rightarrow> string" where
  "normalize_openalex_id PyNone = ''''"
| "normalize_openalex_id PyNaN = ''''"
| "normalize_openalex_id (PyStr s) = strip (str_remove ''https://openalex.org/'' s)"

section \<open>Reference tables\<close>

subsection \<open>The indexing registry\<close>

text \<open>
  The registry file as \<open>pd.read_csv\<close> returns it: the columns in file order, each with
  its name and its cells. A cell is \<open>None\<close> when it is missing (NaN, dropped by
  \<open>dropna()\<close>) and \<open>Some s\<close> when \<open>astype(str)\<close> renders it as \<open>s\<close>. \<open>read_csv\<close> makes
  column names distinct, so \<open>df[col]\<close> is the one column of that name. The file itself
  may be absent (\<open>os.path.exists\<close> fails) or unreadable (\<open>read_csv\<close> raises).
\<close>

type_synonym dataframe = "(string \<times> string option list) list"

datatype scopus_file = FileMissing | FileUnreadable | FileCsv dataframe

fun dropna :: "'a option list \<Rightarrow> 'a list" where
  "dropna [] = []"
| "dropna (None # cells) = dropna cells"
| "dropna (Some v # cells) = v # dropna cells"

text \<open>
  \<^verbatim>\<open>
  for val in df[col].dropna().astype(str):
      clean = normalize_issn(val)
      if len(clean) == 8:
          issn_set.add(clean)
  \<close>
\<close>

fun add_valid_issns :: "string list \<Rightarrow> string set \<Rightarrow> string set" where
  "add_valid_issns [] issn_set = issn_set"
| "add_valid_issns (val # vals) issn_set =
     (let clean = normalize_issn (PyStr val)
      in add_valid_issns vals (if length clean = 8 then insert clean issn_set else issn_set))"

text \<open>
  \<^verbatim>\<open>
  for col in ["ISSN", "EISSN", "Issn", "issn"]:
      if col in df.columns:
          ...
  \<close>
\<close>

fun probe_columns :: "dataframe \<Rightarrow> string list \<Rightarrow> string set \<Rightarrow> string set" where
  "probe_columns df [] issn_set = issn_set"
| "probe_columns df (col # cols) issn_set =
     probe_columns df cols
       (case map_of df col of
          None \<Rightarrow> issn_set
        | Some cells \<Rightarrow> add_valid_issns (dropna cells) issn_set)"

definition load_scopus_sources :: "scopus_file \<Rightarrow> string set" where
  "load_scopus_sources scopus_file =
     (case scopus_file of
        FileMissing \<Rightarrow> {}
      | FileUnreadable \<Rightarrow> {}
      | FileCsv df \<Rightarrow> probe_columns df [''ISSN'', ''EISSN'', ''Issn'', ''issn''] {})"

text \<open>
  \<^verbatim>\<open>
  def is_scopus_indexed(self, source_issn_list):
      if not self.scopus_sources or not source_issn_list:
          return False
      for issn in source_issn_list:
          if normalize_issn(issn) in self.scopus_sources:
              return True
      return False
  \<close>
\<close>

fun any_in_registry :: "string set \<Rightarrow> string list \<Rightarrow> bool" where
  "any_in_registry scopus_sources [] = False"
| "any_in_registry scopus_sources (issn # rest) =
     (if normalize_issn (PyStr issn) \<in> scopus_sources then True
      else any_in_registry scopus_sources rest)"

definition is_scopus_indexed :: "string set \<Rightarrow> string list \<Rightarrow> bool" where
  "is_scopus_indexed scopus_sources source_issn_list =
     (if scopus_sources = {} \<or> source_issn_list = [] then False
      else any_in_registry scopus_sources source_issn_list)"

subsection \<open>The ranking tables and the quartile resolver\<close>

text \<open>
  A row of a year table, as \<open>df_year.iterrows()\<close> yields it: the column names in order
  (\<open>row.index\<close>) with their cells. A cell is \<open>None\<close> when \<open>pd.notna\<close> fails and \<open>Some s\<close>
  when \<open>str(row[c])\<close> is \<open>s\<close>. Column names are distinct, so \<open>row[c]\<close> is one cell.
  \<open>self.scimago_data\<close> maps a year to the rows of its concatenated files.
\<close>

type_synonym table_row = "(string \<times> string option) list"

definition issn_named :: "string \<Rightarrow> bool" where
  "issn_named c = (lower c = ''issn'' \<or> contains ''issn'' (lower c))"

text \<open>The cells of the identifier-bearing columns that are present, as strings.\<close>

definition issn_values :: "table_row \<Rightarrow> string list" where
  "issn_values row =
     dropna (map (\<lambda>c. case map_of row c of None \<Rightarrow> None | Some cell \<Rightarrow> cell)
                 (filter issn_named (map fst row)))"

definition tier_columns :: "string list" where
  "tier_columns = [''SJR Quartile'', ''SJR quartile'', ''Quartile'', ''sjr quartile'', ''SJR'']"

definition tier_labels :: "string list" where
  "tier_labels = [''Q1'', ''Q2'', ''Q3'', ''Q4'']"

text \<open>
  \<^verbatim>\<open>
  for qcol in ["SJR Quartile", "SJR quartile", "Quartile", "sjr quartile", "SJR"]:
      if qcol in row and pd.notna(row[qcol]):
          q = str(row[qcol]).strip()
          if q in ["Q1", "Q2", "Q3", "Q4"]:
              return q
  \<close>
\<close>

fun find_tier :: "table_row \<Rightarrow> string list \<Rightarrow> string option" where
  "find_tier row [] = None"
| "find_tier row (qcol # qcols) =
     (case map_of row qcol of
        Some (Some v) \<Rightarrow>
          (let q = strip v
           in if q \<in> set tier_labels then Some q else find_tier row qcols)
      | _ \<Rightarrow> find_tier row qcols)"

text \<open>
  \<^verbatim>\<open>
  for candidate in (s.strip() for s in issn_raw.split(",")):
      if normalize_issn(candidate) == clean_target:
          <the loop over the tier columns, returning on a valid tier>
  \<close>
\<close>

fun scan_candidates :: "table_row \<Rightarrow> string \<Rightarrow> string list \<Rightarrow> string option" where
  "scan_candidates row clean_target [] = None"
| "scan_candidates row clean_target (candidate # rest) =
     (if normalize_issn (PyStr candidate) = clean_target
      then (case find_tier row tier_columns of
              Some q \<Rightarrow> Some q
            | None \<Rightarrow> scan_candidates row clean_target rest)
      else scan_candidates row clean_target rest)"

fun scan_values :: "table_row \<Rightarrow> string \<Rightarrow> string list \<Rightarrow> string option" where
  "scan_values row clean_target [] = None"
| "scan_values row clean_target (issn_raw # rest) =
     (case scan_candidates row clean_target (map strip (split_on CHR '','' issn_raw)) of
        Some q \<Rightarrow> Some q
      | None \<Rightarrow> scan_values row clean_target rest)"

fun scan_rows :: "string \<Rightarrow> table_row list \<Rightarrow> string option" where
  "scan_rows clean_target [] = None"
| "scan_rows clean_target (row # rows) =
     (case scan_values row clean_target (issn_values row) of
        Some q \<Rightarrow> Some q
      | None \<Rightarrow> scan_rows clean_target rows)"

text \<open>
  \<^verbatim>\<open>
  def get_scimago_quartile(self, source_issn, publication_year):
      if not source_issn or publication_year not in self.scimago_data:
          return None
      df_year = self.scimago_data[publication_year]
      clean_target = normalize_issn(source_issn)
      if clean_target == "":
          return None
      for idx, row in df_year.iterrows():
          ...
      return None
  \<close>
\<close>

definition get_scimago_quartile ::
  "(int \<rightharpoonup> table_row list) \<Rightarrow> string \<Rightarrow> int \<Rightarrow> string option" where
  "get_scimago_quartile scimago_data source_issn publication_year =
     (if source_issn = [] then None
      else case scimago_data publication_year of
             None \<Rightarrow> None
           | Some df_year \<Rightarrow>
               (let clean_target = normalize_issn (PyStr source_issn)
                in if clean_target = [] then None else scan_rows clean_target df_year))"

section \<open>External records\<close>

text \<open>
  A key of a JSON object (or a column of a row) read with \<open>.get\<close>: the key may be
  absent, present with \<open>null\<close> (a NaN cell), or present with a value. \<open>d.get(k)\<close>
  is \<open>get\<close>, \<open>d.get(k, default)\<close> is \<open>get_or\<close> (the default stands in for an absent key
  only).
\<close>

datatype 'a field = Missing | Null | Val 'a

definition get :: "'a field \<Rightarrow> 'a option" where
  "get f = (case f of Val x \<Rightarrow> Some x | _ \<Rightarrow> None)"

definition get_or :: "'a field \<Rightarrow> 'a option \<Rightarrow> 'a option" where
  "get_or f dflt = (case f of Missing \<Rightarrow> dflt | Null \<Rightarrow> None | Val x \<Rightarrow> Some x)"

text \<open>
  The document the metadata source returns for a work, with the fields the enricher
  reads: \<open>doi\<close>, \<open>title\<close>, \<open>abstract\<close>, \<open>publication_year\<close>, \<open>publication_date\<close>, \<open>type\<close>,
  \<open>language\<close>, \<open>cited_by_count\<close>, \<open>open_access.{is_oa, oa_status}\<close>,
  \<open>primary_location.source.{display_name, type, issn_l, issn}\<close>, and the display names of
  the entries of \<open>concepts\<close> and \<open>topics\<close>. The venue's \<open>issn\<close> is a list of strings or
  one string. Values of other JSON types in these fields are outside the model.
\<close>

datatype issn_value = IssnMany "string list" | IssnOne string

record source =
  src_display_name :: "string field"
  src_type :: "string field"
  src_issn_l :: "string field"
  src_issn :: "issn_value field"

record open_access =
  oa_is_oa :: "bool field"
  oa_status :: "string field"

record work =
  w_doi :: "string field"
  w_title :: "string field"
  w_abstract :: "string field"
  w_publication_year :: "int field"
  w_publication_date :: "string field"
  w_type :: "string field"
  w_language :: "string field"
  w_cited_by_count :: "int field"
  w_open_access :: "open_access field"
  w_primary_location :: "source field field"
  w_concepts :: "string field list field"
  w_topics :: "string field list field"

text \<open>
  \<open>w_primary_location\<close> holds the \<open>source\<close> key of the \<open>primary_location\<close> object;
  an entry of \<open>w_concepts\<close> or \<open>w_topics\<close> is the \<open>display_name\<close> key of that entry.

  What \<open>r.json()\<close> gives for a response: a falsy value (\<open>null\<close>, \<open>false\<close>, \<open>0\<close>, \<open>""\<close>,
  \<open>[]\<close>, \<open>{}\<close>), an object with at least one key, or another truthy value, which has
  no \<open>.get\<close>.
\<close>

datatype body = BodyFalsy | BodyWork work | BodyOther

text \<open>
  The answer to one \<open>requests.get\<close>: a response with its status code and its body
  parsed as JSON (\<open>None\<close> when \<open>r.json()\<close> raises), or a transport failure (the call
  raises). The network is a parameter: the answer to the request for an identifier,
  given the number of requests made before it.
\<close>

datatype response = Response nat "body option" | RequestFailed

type_synonym network = "nat \<Rightarrow> string \<Rightarrow> response"

text \<open>
  The fetcher's state: the cache \<open>self._openalex_cache\<close>, and (to state what reaches the
  network) the identifiers requested so far, oldest first.
\<close>

record fetcher =
  openalex_cache :: "string \<rightharpoonup> body"
  requested :: "string list"

text \<open>
  \<^verbatim>\<open>
  def get_work_details_single(self, work_id_clean):
      if not work_id_clean:
          return None
      if work_id_clean in self._openalex_cache:
          return self._openalex_cache[work_id_clean]
      url = f"https://api.openalex.org/works/{work_id_clean}"
      try:
          r = requests.get(url, timeout=20)
          if r.status_code == 200:
              data = r.json()
              self._openalex_cache[work_id_clean] = data
              return data
          else:
              return None
      except Exception as e:
          return None
  \<close>
\<close>

definition get_work_details_single ::
  "network \<Rightarrow> fetcher \<Rightarrow> string \<Rightarrow> body option \<times> fetcher" where
  "get_work_details_single net self work_id_clean =
     (if work_id_clean = [] then (None, self)
      else case openalex_cache self work_id_clean of
             Some data \<Rightarrow> (Some data, self)
           | None \<Rightarrow>
               (let sent = self\<lparr>requested := requested self @ [work_id_clean]\<rparr>
                in case net (length (requested self)) work_id_clean of
                     RequestFailed \<Rightarrow> (None, sent)
                   | Response status_code parsed \<Rightarrow>
                       (if status_code = 200
                        then (case parsed of
                                None \<Rightarrow> (None, sent)
                              | Some data \<Rightarrow>
                                  (Some data,
                                   sent\<lparr>openalex_cache :=
                                          (openalex_cache sent)(work_id_clean \<mapsto> data)\<rparr>))
                        else (None, sent))))"

text \<open>
  The first loop of \<open>enhance_all_dataset\<close>: one fetch per identifier, in order, each
  paired with what it returned (the pause between calls has no effect on the result).
  \<^verbatim>\<open>
  for wid in tqdm(work_ids, desc="Fetching works"):
      detail = self.get_work_details_single(wid)
      works_details.append((wid, detail))
      time.sleep(0.15)
  \<close>
\<close>

fun fetch_all :: "network \<Rightarrow> fetcher \<Rightarrow> string list \<Rightarrow> (string \<times> body option) list \<times> fetcher" where
  "fetch_all net self [] = ([], self)"
| "fetch_all net self (wid # wids) =
     (case get_work_details_single net self wid of
        (detail, self1) \<Rightarrow>
          (case fetch_all net self1 wids of
             (details, self2) \<Rightarrow> ((wid, detail) # details, self2)))"

section \<open>The record enricher\<close>

text \<open>
  A row of the raw table (\<open>works_all.csv\<close>). The \<open>work_id\<close> cell is a string or missing;
  each other column the enricher reads may be absent from the table (\<open>Missing\<close>), hold a
  missing cell (\<open>Null\<close>) or hold a value. The year and the counts are numeric columns.
\<close>

record raw_record =
  raw_work_id :: pyval
  raw_publication_year :: "int field"
  raw_publication_date :: "string field"
  raw_type :: "string field"
  raw_language :: "string field"
  raw_cited_by_count :: "int field"
  raw_open_access_is_oa :: "bool field"
  raw_open_access_oa_status :: "string field"
  raw_multi_institution :: "bool field"
  raw_multi_country :: "bool field"
  raw_authors_count :: "int field"
  raw_institutions_count :: "int field"

record raw_table =
  columns :: "string list"
  records :: "raw_record list"

text \<open>
  A row of the enriched table; \<open>None\<close> is a null cell. The dictionary keys \<open>type\<close> and
  \<open>is_scopus_indexed\<close> are the fields \<open>work_type\<close> and \<open>is_scopus_indexed_flag\<close>.
\<close>

record enriched_row =
  work_id :: pyval
  doi :: "string option"
  title :: "string option"
  abstract :: "string option"
  publication_year :: "int option"
  publication_date :: "string option"
  work_type :: "string option"
  language :: "string option"
  cited_by_count :: "int option"
  open_access_is_oa :: "bool option"
  open_access_oa_status :: "string option"
  source_name :: "string option"
  source_type :: "string option"
  source_issn_l :: "string option"
  source_issn :: "string list"
  multi_institution :: "bool option"
  multi_country :: "bool option"
  authors_count :: "int option"
  institutions_count :: "int option"
  concepts_list :: string
  venue_issn_list :: string
  is_scopus_indexed_flag :: bool
  scimago_quartile :: "string option"

datatype error = KeyError | AttributeError | TypeError

text \<open>\<open>x or y\<close> on optional values, with the truth test of the values' type.\<close>

definition py_or :: "('a \<Rightarrow> bool) \<Rightarrow> 'a option \<Rightarrow> 'a option \<Rightarrow> 'a option" where
  "py_or truthy x y = (case x of Some v \<Rightarrow> (if truthy v then Some v else y) | None \<Rightarrow> y)"

text \<open>
  The row for a record whose fetch gave nothing (lines 205 to 229 of the source): the
  raw fields, and fixed values for everything that comes from the external record.
\<close>

definition fallback_row :: "raw_record \<Rightarrow> enriched_row" where
  "fallback_row orig =
     \<lparr> work_id = raw_work_id orig,
       doi = None,
       title = None,
       abstract = None,
       publication_year = get_or (raw_publication_year orig) None,
       publication_date = get_or (raw_publication_date orig) None,
       work_type = get_or (raw_type orig) None,
       language = get_or (raw_language orig) None,
       cited_by_count = get_or (raw_cited_by_count orig) (Some 0),
       open_access_is_oa = get_or (raw_open_access_is_oa orig) (Some False),
       open_access_oa_status = get_or (raw_open_access_oa_status orig) (Some []),
       source_name = None,
       source_type = None,
       source_issn_l = None,
       source_issn = [],
       multi_institution = get_or (raw_multi_institution orig) (Some False),
       multi_country = get_or (raw_multi_country orig) (Some False),
       authors_count = get_or (raw_authors_count orig) (Some 0),
       institutions_count = get_or (raw_institutions_count orig) (Some 0),
       concepts_list = [],
       venue_issn_list = [],
       is_scopus_indexed_flag = False,
       scimago_quartile = None \<rparr>"

text \<open>
  \<^verbatim>\<open>
  primary_source = work.get("primary_location", {}).get("source", {}) or {}
  \<close>
  A \<open>null\<close> \<open>primary_location\<close> has no \<open>.get\<close>: AttributeError.
\<close>

definition empty_source :: source where
  "empty_source =
     \<lparr> src_display_name = Missing, src_type = Missing, src_issn_l = Missing, src_issn = Missing \<rparr>"

definition primary_source_of :: "work \<Rightarrow> error + source" where
  "primary_source_of work =
     (case w_primary_location work of
        Missing \<Rightarrow> Inr empty_source
      | Null \<Rightarrow> Inl AttributeError
      | Val location_source \<Rightarrow>
          (case location_source of Val src \<Rightarrow> Inr src | _ \<Rightarrow> Inr empty_source))"

text \<open>
  \<^verbatim>\<open>
  issn_list = []
  if primary_source.get("issn_l"):
      issn_list.append(primary_source.get("issn_l"))
  if primary_source.get("issn"):
      issn_field = primary_source.get("issn")
      if isinstance(issn_field, (list, tuple)):
          issn_list.extend(issn_field)
      else:
          issn_list.extend([s.strip() for s in str(issn_field).split(",") if s.strip()])
  \<close>
\<close>

definition collect_issns :: "source \<Rightarrow> string list" where
  "collect_issns primary_source =
     (case src_issn_l primary_source of
        Val l \<Rightarrow> (if l \<noteq> [] then [l] else [])
      | _ \<Rightarrow> [])
     @
     (case src_issn primary_source of
        Val (IssnMany issn_field) \<Rightarrow> issn_field
      | Val (IssnOne issn_field) \<Rightarrow>
          filter (\<lambda>s. s \<noteq> []) (map strip (split_on CHR '','' issn_field))
      | _ \<Rightarrow> [])"

text \<open>
  \<^verbatim>\<open>
  issn_list = [s for s in set([normalize_issn(x) for x in issn_list]) if s]
  \<close>
  The order in which Python iterates a set of strings is not fixed by the language: it
  follows the strings' hashes, which are seeded per process. The iteration is a
  parameter \<open>set_order\<close>: given the elements put into the set, it lists them. What the
  runtime guarantees is \<open>enumerates\<close>: each element once.
\<close>

type_synonym set_iteration = "string list \<Rightarrow> string list"

definition enumerates :: "set_iteration \<Rightarrow> bool" where
  "enumerates set_order = (\<forall>xs. set (set_order xs) = set xs \<and> distinct (set_order xs))"

definition normalized_issn_list :: "set_iteration \<Rightarrow> source \<Rightarrow> string list" where
  "normalized_issn_list set_order primary_source =
     filter (\<lambda>s. s \<noteq> [])
       (set_order (map (\<lambda>x. normalize_issn (PyStr x)) (collect_issns primary_source)))"

text \<open>
  \<^verbatim>\<open>
  concepts = [c.get("display_name") for c in work.get("concepts", []) if c.get("display_name")]
  \<close>
  Iterating a \<open>null\<close> list raises TypeError.
\<close>

fun display_names :: "string field list \<Rightarrow> string list" where
  "display_names [] = []"
| "display_names (Val n # cs) = (if n \<noteq> [] then n # display_names cs else display_names cs)"
| "display_names (_ # cs) = display_names cs"

definition names_of :: "string field list field \<Rightarrow> error + string list" where
  "names_of entries =
     (case entries of
        Missing \<Rightarrow> Inr []
      | Null \<Rightarrow> Inl TypeError
      | Val cs \<Rightarrow> Inr (display_names cs))"

text \<open>
  \<^verbatim>\<open>
  all_concepts = [c for c in (concepts + topics) if str(c).lower() != "other"]
  row["concepts_list"] = ";".join(all_concepts) if all_concepts else ""
  \<close>
\<close>

definition concepts_joined :: "string list \<Rightarrow> string list \<Rightarrow> string" where
  "concepts_joined concepts topics =
     (let all_concepts = filter (\<lambda>c. lower c \<noteq> ''other'') (concepts @ topics)
      in if all_concepts \<noteq> [] then join '';'' all_concepts else [])"

text \<open>
  \<^verbatim>\<open>
  for issn in issn_list:
      q = self.get_scimago_quartile(issn, pub_year)
      if q:
          row["scimago_quartile"] = q
          break
  \<close>
\<close>

fun first_quartile :: "(int \<rightharpoonup> table_row list) \<Rightarrow> int \<Rightarrow> string list \<Rightarrow> string option" where
  "first_quartile scimago_data pub_year [] = None"
| "first_quartile scimago_data pub_year (issn # rest) =
     (case get_scimago_quartile scimago_data issn pub_year of
        Some q \<Rightarrow> (if q \<noteq> [] then Some q else first_quartile scimago_data pub_year rest)
      | None \<Rightarrow> first_quartile scimago_data pub_year rest)"

text \<open>
  The row for a record whose fetch gave a work (lines 238 to 302 of the source). The
  steps that can raise come in the source's order: the primary source, \<open>open_access\<close>,
  \<open>concepts\<close>, \<open>topics\<close>.
\<close>

definition enrich_work ::
  "set_iteration \<Rightarrow> string set \<Rightarrow> (int \<rightharpoonup> table_row list) \<Rightarrow> raw_record \<Rightarrow> work \<Rightarrow>
   error + enriched_row" where
  "enrich_work set_order scopus_sources scimago_data original_row work =
     (case primary_source_of work of
        Inl e \<Rightarrow> Inl e
      | Inr primary_source \<Rightarrow>
     (case w_open_access work of
        Null \<Rightarrow> Inl AttributeError
      | oa \<Rightarrow>
     (case names_of (w_concepts work) of
        Inl e \<Rightarrow> Inl e
      | Inr concepts \<Rightarrow>
     (case names_of (w_topics work) of
        Inl e \<Rightarrow> Inl e
      | Inr topics \<Rightarrow>
     (let issn_list = normalized_issn_list set_order primary_source;
          pub_year = py_or (\<lambda>y. y \<noteq> 0) (get (w_publication_year work))
                       (get_or (raw_publication_year original_row) None)
      in Inr
       \<lparr> work_id = raw_work_id original_row,
         doi = get (w_doi work),
         title = get (w_title work),
         abstract = get (w_abstract work),
         publication_year = pub_year,
         publication_date = py_or (\<lambda>s. s \<noteq> []) (get (w_publication_date work))
                              (get_or (raw_publication_date original_row) None),
         work_type = py_or (\<lambda>s. s \<noteq> []) (get (w_type work))
                       (get_or (raw_type original_row) None),
         language = py_or (\<lambda>s. s \<noteq> []) (get (w_language work))
                      (get_or (raw_language original_row) None),
         cited_by_count = get_or (w_cited_by_count work) (Some 0),
         open_access_is_oa =
           (case oa of Val a \<Rightarrow> get_or (oa_is_oa a) (Some False) | _ \<Rightarrow> Some False),
         open_access_oa_status =
           (case oa of Val a \<Rightarrow> get_or (oa_status a) (Some []) | _ \<Rightarrow> Some []),
         source_name = get (src_display_name primary_source),
         source_type = get (src_type primary_source),
         source_issn_l = get (src_issn_l primary_source),
         source_issn = issn_list,
         multi_institution = get_or (raw_multi_institution original_row) (Some False),
         multi_country = get_or (raw_multi_country original_row) (Some False),
         authors_count = get_or (raw_authors_count original_row) (Some 0),
         institutions_count = get_or (raw_institutions_count original_row) (Some 0),
         concepts_list = concepts_joined concepts topics,
         venue_issn_list = (if issn_list \<noteq> [] then join '';'' issn_list else []),
         is_scopus_indexed_flag = is_scopus_indexed scopus_sources issn_list,
         scimago_quartile =
           (case pub_year of
              None \<Rightarrow> None
            | Some y \<Rightarrow>
                (if issn_list \<noteq> [] \<and> y \<noteq> 0
                 then first_quartile scimago_data y issn_list else None)) \<rparr>)))))"

text \<open>
  The second loop of \<open>enhance_all_dataset\<close>, over the pairs of an identifier and what
  its fetch returned. \<open>df_all[df_all["work_id_clean"] == wid]\<close> followed by \<open>iloc[0]\<close>
  is the first raw record whose cleaned identifier is \<open>wid\<close>; a pair with no such
  record is skipped. \<open>not work\<close> holds for \<open>None\<close> and for a falsy body.
\<close>

definition first_with_id :: "string \<Rightarrow> raw_record list \<Rightarrow> raw_record option" where
  "first_with_id wid df_all = find (\<lambda>r. normalize_openalex_id (raw_work_id r) = wid) df_all"

definition process_one ::
  "set_iteration \<Rightarrow> string set \<Rightarrow> (int \<rightharpoonup> table_row list) \<Rightarrow> raw_record \<Rightarrow> body option \<Rightarrow>
   error + enriched_row" where
  "process_one set_order scopus_sources scimago_data orig detail =
     (case detail of
        None \<Rightarrow> Inr (fallback_row orig)
      | Some BodyFalsy \<Rightarrow> Inr (fallback_row orig)
      | Some BodyOther \<Rightarrow> Inl AttributeError
      | Some (BodyWork work) \<Rightarrow> enrich_work set_order scopus_sources scimago_data orig work)"

fun process_works ::
  "set_iteration \<Rightarrow> string set \<Rightarrow> (int \<rightharpoonup> table_row list) \<Rightarrow> raw_record list \<Rightarrow>
   (string \<times> body option) list \<Rightarrow> error + enriched_row list" where
  "process_works set_order scopus_sources scimago_data df_all [] = Inr []"
| "process_works set_order scopus_sources scimago_data df_all ((wid, detail) # rest) =
     (case first_with_id wid df_all of
        None \<Rightarrow> process_works set_order scopus_sources scimago_data df_all rest
      | Some orig \<Rightarrow>
          (case process_one set_order scopus_sources scimago_data orig detail of
             Inl e \<Rightarrow> Inl e
           | Inr row \<Rightarrow>
               (case process_works set_order scopus_sources scimago_data df_all rest of
                  Inl e \<Rightarrow> Inl e
                | Inr rows \<Rightarrow> Inr (row # rows))))"

text \<open>
  The end of \<open>enhance_all_dataset\<close>:
  \<^verbatim>\<open>
  df_enhanced = pd.DataFrame(enhanced_rows)
  df_enhanced = self.ensure_all_columns_exist(df_enhanced)
  df_enhanced["publication_year"] = pd.to_numeric(
      df_enhanced["publication_year"], errors="coerce").astype("Int64")
  df_enhanced["cited_by_count"] = (
      pd.to_numeric(df_enhanced["cited_by_count"], errors="coerce").fillna(0).astype(int))
  \<close>
  A column of integers that also holds a null is a column of 64-bit floats, and the two
  conversions go through 64-bit floats and 64-bit integers. All of this is exact on
  the integers of magnitude at most \<open>2^53\<close>: there the year is kept as it is and a null
  count becomes 0 (\<open>coerce_numeric\<close>). On a table that holds a larger integer pandas
  rounds, wraps around or raises a TypeError, depending on the other cells of the
  column; this is not modelled, and the outcome of the run is \<open>Unmodelled\<close>.
\<close>

definition exact_int :: "int \<Rightarrow> bool" where
  "exact_int n = (- (2 ^ 53) \<le> n \<and> n \<le> 2 ^ 53)"

definition exact_cell :: "int option \<Rightarrow> bool" where
  "exact_cell c = (case c of None \<Rightarrow> True | Some n \<Rightarrow> exact_int n)"

definition exact_row :: "enriched_row \<Rightarrow> bool" where
  "exact_row row =
     (exact_cell (publication_year row) \<and> exact_cell (cited_by_count row) \<and>
      exact_cell (authors_count row) \<and> exact_cell (institutions_count row))"

definition coerce_numeric :: "enriched_row \<Rightarrow> enriched_row" where
  "coerce_numeric row =
     row\<lparr>cited_by_count := Some (case cited_by_count row of None \<Rightarrow> 0 | Some n \<Rightarrow> n)\<rparr>"

text \<open>
  What a run of \<open>enhance_all_dataset\<close> comes to: it raises, it returns, or it leaves
  the part of pandas that the model covers.
\<close>

datatype 'a outcome = Raises error | Returns 'a | Unmodelled

text \<open>
  \<open>enhance_all_dataset\<close>: the check for the \<open>work_id\<close> column, the cleaned identifiers,
  the fetch loop, the processing loop, the numeric coercions. It returns the enriched
  table and leaves the fetcher in its new state.
\<close>

definition enhance_all_dataset ::
  "set_iteration \<Rightarrow> network \<Rightarrow> string set \<Rightarrow> (int \<rightharpoonup> table_row list) \<Rightarrow> fetcher \<Rightarrow>
   raw_table \<Rightarrow> (enriched_row list \<times> fetcher) outcome" where
  "enhance_all_dataset set_order net scopus_sources scimago_data self df_all =
     (if ''work_id'' \<notin> set (columns df_all) then Raises KeyError
      else
        (let work_ids = map (\<lambda>r. normalize_openalex_id (raw_work_id r)) (records df_all)
         in case fetch_all net self work_ids of
              (works_details, self') \<Rightarrow>
                (case process_works set_order scopus_sources scimago_data (records df_all)
                        works_details of
                   Inl e \<Rightarrow> Raises e
                 | Inr enhanced_rows \<Rightarrow>
                     (if list_all exact_row enhanced_rows
                      then Returns (map coerce_numeric enhanced_rows, self')
                      else Unmodelled))))"

section \<open>The corpus filter\<close>

text \<open>
  \<^verbatim>\<open>
  def create_strict_dataset(self, df_enhanced, quartile_threshold="Q3"):
      df_enhanced = self.ensure_all_columns_exist(df_enhanced)
      if self.scopus_sources:
          scopus_filtered = df_enhanced[df_enhanced["is_scopus_indexed"] == True]
      else:
          scopus_filtered = df_enhanced
      valid_quartiles = (["Q1", "Q2", "Q3"] if quartile_threshold == "Q3" else ["Q1", "Q2"])
      strict = scopus_filtered[scopus_filtered["scimago_quartile"].isin(valid_quartiles)]
      return strict
  \<close>
  Every column of an \<^typ>\<open>enriched_row\<close> exists, so \<open>ensure_all_columns_exist\<close> adds nothing.
\<close>

definition valid_quartiles :: "string \<Rightarrow> string list" where
  "valid_quartiles quartile_threshold =
     (if quartile_threshold = ''Q3'' then [''Q1'', ''Q2'', ''Q3''] else [''Q1'', ''Q2''])"

definition isin :: "string option \<Rightarrow> string list \<Rightarrow> bool" where
  "isin cell vals = (case cell of None \<Rightarrow> False | Some v \<Rightarrow> v \<in> set vals)"

definition create_strict_dataset ::
  "string set \<Rightarrow> enriched_row list \<Rightarrow> string \<Rightarrow> enriched_row list" where
  "create_strict_dataset scopus_sources df_enhanced quartile_threshold =
     (let scopus_filtered =
            (if scopus_sources \<noteq> {}
             then filter (\<lambda>r. is_scopus_indexed_flag r = True) df_enhanced
             else df_enhanced)
      in filter (\<lambda>r. isin (scimago_quartile r) (valid_quartiles quartile_threshold))
           scopus_filtered)"

section \<open>Notions used to state the claims\<close>

text \<open>
  The split and normalised identifier values of a row: every comma-separated piece of
  every present identifier cell, trimmed and normalised.
\<close>

definition row_identifiers :: "table_row \<Rightarrow> string list" where
  "row_identifiers row =
     concat (map (\<lambda>issn_raw. map (\<lambda>candidate. normalize_issn (PyStr candidate))
                                 (map strip (split_on CHR '','' issn_raw)))
                 (issn_values row))"

text \<open>
  The label a tier column holds: read exactly (\<open>exact_label\<close>), or after trimming the
  surrounding whitespace (\<open>trimmed_label\<close>). The tier of a row under either reading is
  the label of the first tier column, in the order of \<open>tier_columns\<close>, that holds one.
\<close>

definition exact_label :: "table_row \<Rightarrow> string \<Rightarrow> string option" where
  "exact_label row qcol =
     (case map_of row qcol of
        Some (Some v) \<Rightarrow> (if v \<in> set tier_labels then Some v else None)
      | _ \<Rightarrow> None)"

definition trimmed_label :: "table_row \<Rightarrow> string \<Rightarrow> string option" where
  "trimmed_label row qcol =
     (case map_of row qcol of
        Some (Some v) \<Rightarrow> (if strip v \<in> set tier_labels then Some (strip v) else None)
      | _ \<Rightarrow> None)"

definition row_tier :: "(table_row \<Rightarrow> string \<Rightarrow> string option) \<Rightarrow> table_row \<Rightarrow> string option" where
  "row_tier label row =
     (case find (\<lambda>qcol. label row qcol \<noteq> None) tier_columns of
        None \<Rightarrow> None
      | Some qcol \<Rightarrow> label row qcol)"

text \<open>
  First-match resolution: the tier of the first row, in table order, whose identifiers
  contain the target and that has a tier.
\<close>

definition first_match ::
  "(table_row \<Rightarrow> string \<Rightarrow> string option) \<Rightarrow> string \<Rightarrow> table_row list \<Rightarrow> string option" where
  "first_match label target rows =
     (case find (\<lambda>row. target \<in> set (row_identifiers row) \<and> row_tier label row \<noteq> None) rows of
        None \<Rightarrow> None
      | Some row \<Rightarrow> row_tier label row)"

text \<open>The entries of a list-valued key that is present.\<close>

definition entries :: "'a list field \<Rightarrow> 'a list" where
  "entries f = (case f of Val xs \<Rightarrow> xs | _ \<Rightarrow> [])"

text \<open>A fetch gave nothing usable: \<open>not work\<close> in the processing loop.\<close>

definition absent :: "body option \<Rightarrow> bool" where
  "absent detail = (detail = None \<or> detail = Some BodyFalsy)"

text \<open>A response that is not a success: a transport failure or a status other than 200.\<close>

definition failed :: "response \<Rightarrow> bool" where
  "failed r = (case r of RequestFailed \<Rightarrow> True | Response status_code parsed \<Rightarrow> status_code \<noteq> 200)"

text \<open>
  Sample data for the concrete instances: a raw record with an identifier and a year,
  a fetched document with no key the enricher reads, and a fallback row.
\<close>

definition example_raw :: raw_record where
  "example_raw =
     \<lparr> raw_work_id = PyStr ''https://openalex.org/W1'', raw_publication_year = Val 2022,
       raw_publication_date = Missing, raw_type = Missing, raw_language = Missing,
       raw_cited_by_count = Missing, raw_open_access_is_oa = Missing,
       raw_open_access_oa_status = Missing, raw_multi_institution = Missing,
       raw_multi_country = Missing, raw_authors_count = Missing,
       raw_institutions_count = Missing \<rparr>"

definition blank_work :: work where
  "blank_work =
     \<lparr> w_doi = Missing, w_title = Missing, w_abstract = Missing,
       w_publication_year = Missing, w_publication_date = Missing, w_type = Missing,
       w_language = Missing, w_cited_by_count = Missing, w_open_access = Missing,
       w_primary_location = Missing, w_concepts = Missing, w_topics = Missing \<rparr>"

definition example_row :: enriched_row where
  "example_row = fallback_row example_raw"

definition two_issn_work :: work where
  "two_issn_work =
     blank_work\<lparr>w_primary_location :=
       Val (Val \<lparr> src_display_name = Val ''Journal'', src_type = Missing,
                  src_issn_l = Val ''1111-1111'',
                  src_issn = Val (IssnMany [''1111-1111'', ''2222-2222'']) \<rparr>)\<rparr>"

text \<open>
  Rows of a year table: one whose tier cell has a leading space, one whose identifier
  cell lists two identifiers, and one whose identifier cell ends with a comma.
\<close>

definition padded_row :: table_row where
  "padded_row = [(''Title'', Some ''Journal A''), (''Issn'', Some ''12345678''),
                 (''SJR Quartile'', Some '' Q1'')]"

definition plain_row :: table_row where
  "plain_row = [(''Title'', Some ''Journal B''), (''Issn'', Some ''87654321, 12345678''),
                (''SJR Quartile'', Some ''Q2'')]"

definition trailing_comma_row :: table_row where
  "trailing_comma_row = [(''Title'', Some ''Journal C''), (''Issn'', Some ''12345678,''),
                         (''SJR Quartile'', Some ''Q3'')]"

text \<open>
  A fetcher as \<open>__init__\<close> leaves it, and a network whose first answer is a 503 and
  whose later answers are a 200 with an empty document.
\<close>

definition fresh_fetcher :: fetcher where
  "fresh_fetcher = \<lparr> openalex_cache = Map.empty, requested = [] \<rparr>"

definition flaky_network :: network where
  "flaky_network n wid = (if n = 0 then Response 503 None else Response 200 (Some BodyFalsy))"

text \<open>
  The cleaned identifier of a raw record (the column \<open>work_id_clean\<close>), a raw record
  whose integers are all of magnitude at most \<open>2^53\<close>, a network on which every request
  fails, a network that answers every request with a document that is not an object,
  and a raw table whose two records have the same identifier and different years.
\<close>

definition clean_id :: "raw_record \<Rightarrow> string" where
  "clean_id r = normalize_openalex_id (raw_work_id r)"

definition exact_raw :: "raw_record \<Rightarrow> bool" where
  "exact_raw r =
     (exact_cell (get (raw_publication_year r)) \<and> exact_cell (get (raw_cited_by_count r)) \<and>
      exact_cell (get (raw_authors_count r)) \<and> exact_cell (get (raw_institutions_count r)))"

definition dead_network :: network where
  "dead_network n wid = RequestFailed"

definition broken_network :: network where
  "broken_network n wid = Response 200 (Some BodyOther)"

definition two_year_table :: raw_table where
  "two_year_table =
     \<lparr> columns = [''work_id'', ''publication_year''],
       records = [example_raw, example_raw\<lparr>raw_publication_year := Val 2021\<rparr>] \<rparr>"

text \<open>
  An end-to-end scenario: the source answers every request with a work published in
  2022 in a venue whose ISSN is \<open>1234-5678\<close>; the raw table has one record. A row is
  summarised by its indexing flag, its tier, its venue name and its year.
\<close>

definition scenario_work :: work where
  "scenario_work =
     blank_work\<lparr>w_title := Val ''A paper'', w_publication_year := Val 2022,
       w_primary_location :=
         Val (Val \<lparr> src_display_name = Val ''Journal B'', src_type = Val ''journal'',
                    src_issn_l = Missing, src_issn = Val (IssnOne ''1234-5678'') \<rparr>)\<rparr>"

definition scenario_network :: network where
  "scenario_network n wid = Response 200 (Some (BodyWork scenario_work))"

definition scenario_table :: raw_table where
  "scenario_table = \<lparr> columns = [''work_id''], records = [example_raw] \<rparr>"

definition summary :: "enriched_row \<Rightarrow> bool \<times> string option \<times> string option \<times> int option" where
  "summary r = (is_scopus_indexed_flag r, scimago_quartile r, source_name r, publication_year r)"

section \<open>Facts about the string operations\<close>

lemma upper_char_idem: "upper_char (upper_char c) = upper_char c"
  by (simp add: upper_char_def)

lemma is_space_upper_char: "is_space (upper_char c) = is_space c"
  by (simp add: upper_char_def is_space_def)

lemma upper_char_hyphen: "(upper_char c = CHR ''-'') = (c = CHR ''-'')"
  by (simp add: upper_char_def)

lemma upper_idem: "upper (upper s) = upper s"
  by (simp add: upper_def upper_char_idem)

lemma str_remove_single: "str_remove [x] s = filter (\<lambda>c. c \<noteq> x) s"
  by (induction s) auto

lemma str_remove_absent: "x \<notin> set s \<Longrightarrow> str_remove [x] s = s"
  by (auto simp: str_remove_single filter_id_conv)

lemma dropWhile_upper: "dropWhile is_space (upper s) = upper (dropWhile is_space s)"
  by (induction s) (simp_all add: upper_def is_space_upper_char)

lemma strip_upper: "strip (upper s) = upper (strip s)"
proof -
  have "rev (upper s) = upper (rev s)" for s
    by (simp add: upper_def rev_map)
  then show ?thesis
    by (simp add: strip_def dropWhile_upper)
qed

lemma dropWhile_fixed: "xs = [] \<or> \<not> P (hd xs) \<Longrightarrow> dropWhile P xs = xs"
  by (cases xs) auto

lemma dropWhile_head: "dropWhile P xs = [] \<or> \<not> P (hd (dropWhile P xs))"
  using hd_dropWhile [of P xs] by blast

lemma strip_idem: "strip (strip s) = strip s"
proof -
  define t where "t = dropWhile is_space (rev (dropWhile is_space s))"
  have t_fixed: "dropWhile is_space t = t"
    unfolding t_def by (rule dropWhile_fixed) (rule dropWhile_head)
  have front: "dropWhile is_space (rev t) = rev t"
  proof (cases "t = []")
    case True
    then show ?thesis by simp
  next
    case False
    have ne: "rev (dropWhile is_space s) \<noteq> []"
    proof
      assume e: "rev (dropWhile is_space s) = []"
      have "t = []"
        unfolding t_def e by simp
      with False show False by simp
    qed
    have "hd (rev t) = last t"
      using False by (simp add: hd_rev)
    also have "last t = last (rev (dropWhile is_space s))"
      unfolding t_def using False ne
      by (metis dropWhile_eq_Nil_conv last_appendR t_def takeWhile_dropWhile_id)
    also have "\<dots> = hd (dropWhile is_space s)"
      using ne by (simp add: last_rev)
    finally have "hd (rev t) = hd (dropWhile is_space s)" .
    moreover have "\<not> is_space (hd (dropWhile is_space s))"
      using ne hd_dropWhile [of is_space s] by auto
    ultimately show ?thesis
      by (intro dropWhile_fixed) simp
  qed
  have "strip (strip s) = rev (dropWhile is_space (rev (dropWhile is_space (rev t))))"
    by (simp add: strip_def t_def)
  also have "\<dots> = rev (dropWhile is_space t)"
    by (simp add: front)
  also have "\<dots> = rev t"
    by (simp add: t_fixed)
  also have "\<dots> = strip s"
    by (simp add: strip_def t_def)
  finally show ?thesis .
qed

lemma set_strip: "set (strip s) \<subseteq> set s"
proof -
  have "set (dropWhile P xs) \<subseteq> set xs" for P and xs :: string
    by (auto dest: set_dropWhileD)
  then show ?thesis
    unfolding strip_def by (metis (no_types) set_rev subset_trans)
qed

lemma hyphen_free_normalized: "CHR ''-'' \<notin> set (upper (strip (str_remove ''-'' s)))"
proof -
  have "CHR ''-'' \<notin> set (str_remove ''-'' s)"
    by (simp add: str_remove_single)
  with set_strip have "CHR ''-'' \<notin> set (strip (str_remove ''-'' s))"
    by blast
  moreover have "c = CHR ''-''" if "upper_char c = CHR ''-''" for c
    using that by (simp add: upper_char_hyphen)
  ultimately show ?thesis
    unfolding upper_def by (metis (no_types) imageE list.set_map)
qed

lemma normalize_issn_str_idem:
  "normalize_issn (PyStr (normalize_issn (PyStr s))) = normalize_issn (PyStr s)"
proof -
  let ?n = "upper (strip (str_remove ''-'' s))"
  have "str_remove ''-'' ?n = ?n"
    by (rule str_remove_absent) (rule hyphen_free_normalized)
  moreover have "strip ?n = ?n"
    by (simp add: strip_upper strip_idem)
  ultimately show ?thesis
    by (simp add: upper_idem)
qed

section \<open>Claims about normalisation\<close>

text \<open>
  C2. \<open>normalize_issn\<close> is a total function into strings: it returns the empty string for
  \<open>None\<close> and for a missing (NaN) value, and normalising an already normalised value
  gives it back unchanged, whatever the first input was.
\<close>

theorem normalize_issn_total_idempotent:
  "normalize_issn PyNone = '''' \<and> normalize_issn PyNaN = '''' \<and>
   normalize_issn (PyStr (normalize_issn x)) = normalize_issn x"
proof (cases x)
  case (PyStr s)
  then show ?thesis
    using normalize_issn_str_idem [of s] by simp
qed (simp_all add: upper_def strip_def)

theorem normalize_issn_total_idempotent_witness:
  "normalize_issn (PyStr '' 1234-567x '') = ''1234567X'' \<and>
   normalize_issn (PyStr (normalize_issn (PyStr '' 1234-567x ''))) = ''1234567X''"
proof -
  have v: "normalize_issn (PyStr '' 1234-567x '') = ''1234567X''"
    by (simp add: upper_def upper_char_def strip_def is_space_def)
  show ?thesis
    using normalize_issn_total_idempotent [of "PyStr '' 1234-567x ''"] v by simp
qed

section \<open>Claims about the indexing registry\<close>

lemma set_dropna: "set (dropna cells) = {v. Some v \<in> set cells}"
  by (induction cells rule: dropna.induct) auto

lemma add_valid_issns_eq:
  "add_valid_issns vals S =
     S \<union> {c. \<exists>v. v \<in> set vals \<and> c = normalize_issn (PyStr v) \<and> length c = 8}"
  by (induction vals arbitrary: S) (auto simp: Let_def)

lemma probe_columns_eq:
  "probe_columns df cols S =
     S \<union> {c. \<exists>col cells v. col \<in> set cols \<and> map_of df col = Some cells \<and>
                 Some v \<in> set cells \<and> c = normalize_issn (PyStr v) \<and> length c = 8}"
proof (induction cols arbitrary: S)
  case Nil
  then show ?case by simp
next
  case (Cons col cols)
  show ?case
  proof (cases "map_of df col")
    case None
    then show ?thesis
      unfolding probe_columns.simps Cons.IH by auto
  next
    case (Some cells)
    then show ?thesis
      unfolding probe_columns.simps Cons.IH add_valid_issns_eq set_dropna by auto
  qed
qed

lemma single_issn_registry:
  "load_scopus_sources (FileCsv [(''ISSN'', [Some v])]) =
     (if length (normalize_issn (PyStr v)) = 8 then {normalize_issn (PyStr v)} else {})"
  by (simp add: load_scopus_sources_def Let_def)

lemma load_example:
  "load_scopus_sources (FileCsv [(''Title'', [Some ''A journal'', Some ''B'']),
      (''ISSN'', [Some ''1234-5678'', None]), (''EISSN'', [None, Some ''123''])]) =
   {''12345678''}"
  by (simp add: load_scopus_sources_def upper_def upper_char_def strip_def is_space_def)

text \<open>
  C9, as the code has it. The loader probes the columns named exactly \<open>ISSN\<close>, \<open>EISSN\<close>,
  \<open>Issn\<close> or \<open>issn\<close> (not every column whose name contains "issn"), and the registry is
  the set of the normalisations, of exactly 8 characters, of the present cells of those
  columns. A file that is missing or unreadable gives the empty registry.
\<close>

theorem load_scopus_sources_probes_four_names:
  "load_scopus_sources FileMissing = {} \<and>
   load_scopus_sources FileUnreadable = {} \<and>
   load_scopus_sources (FileCsv df) =
     {c. \<exists>col cells v. col \<in> set [''ISSN'', ''EISSN'', ''Issn'', ''issn''] \<and>
            map_of df col = Some cells \<and> Some v \<in> set cells \<and>
            c = normalize_issn (PyStr v) \<and> length c = 8}"
  by (simp add: load_scopus_sources_def probe_columns_eq)

theorem load_scopus_sources_probes_four_names_witness:
  "load_scopus_sources (FileCsv [(''Title'', [Some ''A journal'', Some ''B'']),
      (''ISSN'', [Some ''1234-5678'', None]), (''EISSN'', [None, Some ''123''])]) =
     {''12345678''} \<and>
   {c. \<exists>col cells v. col \<in> set [''ISSN'', ''EISSN'', ''Issn'', ''issn''] \<and>
          map_of [(''Title'', [Some ''A journal'', Some ''B'']),
                  (''ISSN'', [Some ''1234-5678'', None]),
                  (''EISSN'', [None, Some ''123''])] col = Some cells \<and>
          Some v \<in> set cells \<and> c = normalize_issn (PyStr v) \<and> length c = 8} =
     {''12345678''}"
proof -
  let ?df = "[(''Title'', [Some ''A journal'', Some ''B'']),
              (''ISSN'', [Some ''1234-5678'', None]), (''EISSN'', [None, Some ''123''])]"
  have a: "load_scopus_sources (FileCsv ?df) = {''12345678''}"
    by (rule load_example)
  have b: "load_scopus_sources (FileCsv ?df) =
     {c. \<exists>col cells v. col \<in> set [''ISSN'', ''EISSN'', ''Issn'', ''issn''] \<and>
            map_of ?df col = Some cells \<and> Some v \<in> set cells \<and>
            c = normalize_issn (PyStr v) \<and> length c = 8}"
    using load_scopus_sources_probes_four_names [of ?df] by (rule conjunct2 [THEN conjunct2])
  show ?thesis
    using a b by (simp only:)
qed

text \<open>
  C9 as stated fails: a column named \<open>E-ISSN\<close> contains "issn" case-insensitively and
  its value normalises to 8 characters, yet the loader does not probe it and the
  registry stays empty.
\<close>

theorem load_scopus_sources_skips_issn_like_column:
  "issn_named ''E-ISSN'' \<and> length (normalize_issn (PyStr ''1234-5678'')) = 8 \<and>
   load_scopus_sources (FileCsv [(''E-ISSN'', [Some ''1234-5678''])]) = {}"
  by (simp add: issn_named_def lower_def lower_char_def load_scopus_sources_def
        upper_def upper_char_def strip_def is_space_def)

text \<open>
  C3, as the code has it. For a registry built from a file whose \<open>ISSN\<close> column holds
  one value, the membership check reports an identifier exactly when the value's
  normalisation has 8 characters and the identifier normalises to the same string.
  Normalisation removes hyphens, trims the ends and upper-cases; it keeps inner spaces.
\<close>

theorem is_scopus_indexed_iff_same_normal_form:
  "is_scopus_indexed (load_scopus_sources (FileCsv [(''ISSN'', [Some v])])) [x] =
     (length (normalize_issn (PyStr v)) = 8 \<and>
      normalize_issn (PyStr x) = normalize_issn (PyStr v))"
  unfolding single_issn_registry by (simp add: is_scopus_indexed_def)

theorem is_scopus_indexed_iff_same_normal_form_witness:
  "is_scopus_indexed (load_scopus_sources (FileCsv [(''ISSN'', [Some ''1234-567x''])]))
     ['' 1234567X '']"
  using is_scopus_indexed_iff_same_normal_form [of "''1234-567x''" "'' 1234567X ''"]
  by (simp add: upper_def upper_char_def strip_def is_space_def)

text \<open>
  C3 as stated fails: with the registry built from \<open>1234-5678\<close>, the identifier
  \<open>1234 5678\<close> followed by a space is not reported as indexed, because its inner space
  survives normalisation.
\<close>

theorem is_scopus_indexed_inner_space_not_indexed:
  "\<not> is_scopus_indexed (load_scopus_sources (FileCsv [(''ISSN'', [Some ''1234-5678''])]))
       [''1234 5678 '']"
  unfolding single_issn_registry
  by (simp add: is_scopus_indexed_def upper_def upper_char_def strip_def is_space_def)

section \<open>Claims about the corpus filter\<close>

text \<open>
  C6. With an empty registry the filter does not look at the indexing flag: the result
  is the table filtered by tier alone, so a row with an accepted tier and a false flag
  stays. With a non-empty registry only the rows with a true flag go on to the tier
  filter. In both cases a row of the result is a row of the table, kept in its place.
\<close>

theorem create_strict_dataset_registry_step:
  "create_strict_dataset {} df q =
     filter (\<lambda>r. isin (scimago_quartile r) (valid_quartiles q)) df \<and>
   (S \<noteq> {} \<longrightarrow>
      create_strict_dataset S df q =
        filter (\<lambda>r. isin (scimago_quartile r) (valid_quartiles q))
          (filter is_scopus_indexed_flag df)) \<and>
   (r \<in> set (create_strict_dataset S df q) \<longleftrightarrow>
      r \<in> set df \<and> (S = {} \<or> is_scopus_indexed_flag r) \<and>
      isin (scimago_quartile r) (valid_quartiles q))"
  by (auto simp: create_strict_dataset_def Let_def)

theorem create_strict_dataset_registry_step_witness:
  "create_strict_dataset {} [example_row\<lparr>scimago_quartile := Some ''Q2''\<rparr>] ''Q3'' =
     [example_row\<lparr>scimago_quartile := Some ''Q2''\<rparr>] \<and>
   create_strict_dataset {''12345678''} [example_row\<lparr>scimago_quartile := Some ''Q2''\<rparr>] ''Q3'' =
     []"
  using create_strict_dataset_registry_step
          [of "[example_row\<lparr>scimago_quartile := Some ''Q2''\<rparr>]" "''Q3''" "{''12345678''}"]
  by (simp add: isin_def valid_quartiles_def example_row_def fallback_row_def)

text \<open>
  C10. The threshold \<open>Q3\<close>, and only that string, accepts the tiers Q1, Q2 and Q3; any
  other threshold accepts Q1 and Q2. A row with a null tier is never in the result.
\<close>

theorem create_strict_dataset_threshold:
  "create_strict_dataset S df ''Q3'' =
     filter (\<lambda>r. (S = {} \<or> is_scopus_indexed_flag r) \<and>
                  scimago_quartile r \<in> {Some ''Q1'', Some ''Q2'', Some ''Q3''}) df \<and>
   (q \<noteq> ''Q3'' \<longrightarrow>
      create_strict_dataset S df q =
        filter (\<lambda>r. (S = {} \<or> is_scopus_indexed_flag r) \<and>
                     scimago_quartile r \<in> {Some ''Q1'', Some ''Q2''}) df) \<and>
   (r \<in> set (create_strict_dataset S df q) \<longrightarrow> scimago_quartile r \<noteq> None)"
proof -
  have isin3: "isin c [''Q1'', ''Q2'', ''Q3''] = (c \<in> {Some ''Q1'', Some ''Q2'', Some ''Q3''})"
    for c
    by (cases c) (auto simp: isin_def)
  have isin2: "isin c [''Q1'', ''Q2''] = (c \<in> {Some ''Q1'', Some ''Q2''})" for c
    by (cases c) (auto simp: isin_def)
  have a: "create_strict_dataset S df ''Q3'' =
     filter (\<lambda>r. (S = {} \<or> is_scopus_indexed_flag r) \<and>
                  scimago_quartile r \<in> {Some ''Q1'', Some ''Q2'', Some ''Q3''}) df"
    by (cases "S = {}") (simp_all add: create_strict_dataset_def valid_quartiles_def isin3)
  have b: "create_strict_dataset S df q =
        filter (\<lambda>r. (S = {} \<or> is_scopus_indexed_flag r) \<and>
                     scimago_quartile r \<in> {Some ''Q1'', Some ''Q2''}) df" if "q \<noteq> ''Q3''"
    using that
    by (cases "S = {}") (simp_all add: create_strict_dataset_def valid_quartiles_def isin2)
  have c: "scimago_quartile r \<noteq> None" if "r \<in> set (create_strict_dataset S df q)"
    using that
    by (auto simp: create_strict_dataset_def Let_def isin_def split: if_splits option.splits)
  show ?thesis
    using a b c by blast
qed

theorem create_strict_dataset_threshold_witness:
  "create_strict_dataset {}
     [example_row\<lparr>scimago_quartile := Some ''Q3''\<rparr>, example_row,
      example_row\<lparr>scimago_quartile := Some ''Q1''\<rparr>] ''Q4'' =
     [example_row\<lparr>scimago_quartile := Some ''Q1''\<rparr>] \<and>
   create_strict_dataset {}
     [example_row\<lparr>scimago_quartile := Some ''Q3''\<rparr>, example_row,
      example_row\<lparr>scimago_quartile := Some ''Q1''\<rparr>] ''q3'' =
     [example_row\<lparr>scimago_quartile := Some ''Q1''\<rparr>] \<and>
   create_strict_dataset {}
     [example_row\<lparr>scimago_quartile := Some ''Q3''\<rparr>, example_row,
      example_row\<lparr>scimago_quartile := Some ''Q1''\<rparr>] ''Q3'' =
     [example_row\<lparr>scimago_quartile := Some ''Q3''\<rparr>,
      example_row\<lparr>scimago_quartile := Some ''Q1''\<rparr>]"
  using create_strict_dataset_threshold
          [of "{}" "[example_row\<lparr>scimago_quartile := Some ''Q3''\<rparr>, example_row,
                     example_row\<lparr>scimago_quartile := Some ''Q1''\<rparr>]" "''Q4''"]
        create_strict_dataset_threshold
          [of "{}" "[example_row\<lparr>scimago_quartile := Some ''Q3''\<rparr>, example_row,
                     example_row\<lparr>scimago_quartile := Some ''Q1''\<rparr>]" "''q3''"]
  by (simp add: example_row_def fallback_row_def)

section \<open>Claims about the enriched record of a fetched work\<close>

lemma enrich_work_Inr:
  assumes "enrich_work set_order S D orig w = Inr row"
  obtains src cs ts where
    "primary_source_of w = Inr src"
    "names_of (w_concepts w) = Inr cs"
    "names_of (w_topics w) = Inr ts"
    "source_issn row = normalized_issn_list set_order src"
    "venue_issn_list row =
       (if normalized_issn_list set_order src \<noteq> []
        then join '';'' (normalized_issn_list set_order src) else [])"
    "concepts_list row = concepts_joined cs ts"
  using assms unfolding enrich_work_def
  by (auto simp: Let_def split: sum.splits field.splits)

lemma names_of_Inr: "names_of f = Inr ns \<Longrightarrow> ns = display_names (entries f)"
  by (auto simp: names_of_def entries_def split: field.splits)

lemma concepts_joined_eq:
  "concepts_joined cs ts = join '';'' (filter (\<lambda>c. lower c \<noteq> ''other'') (cs @ ts))"
  by (simp add: concepts_joined_def Let_def)

lemma enrich_concepts_example:
  "map_sum id concepts_list
     (enrich_work remdups {} Map.empty example_raw
        (blank_work\<lparr>w_concepts := Val [Val ''AI'', Val ''Other'', Null],
                    w_topics := Val [Val ''Robotics'', Val ''AI'']\<rparr>)) =
   Inr ''AI;Robotics;AI''"
  by (simp add: enrich_work_def primary_source_of_def blank_work_def names_of_def
        concepts_joined_def lower_def lower_char_def Let_def)

text \<open>
  C7, as the code has it. The concept list of the enriched record is the non-empty
  display names of \<open>concepts\<close> followed by those of \<open>topics\<close>, without the entries equal
  to "other" in any letter case, joined by semicolons in that order. Nothing removes
  duplicates: a name present twice appears twice.
\<close>

theorem concepts_list_is_filtered_concatenation:
  assumes "enrich_work set_order S D orig w = Inr row"
  shows "concepts_list row =
     join '';'' (filter (\<lambda>c. lower c \<noteq> ''other'')
                   (display_names (entries (w_concepts w)) @
                    display_names (entries (w_topics w))))"
proof -
  from assms obtain cs ts where
    cs: "names_of (w_concepts w) = Inr cs" and ts: "names_of (w_topics w) = Inr ts"
    and cl: "concepts_list row = concepts_joined cs ts"
    by (rule enrich_work_Inr)
  show ?thesis
    using names_of_Inr [OF cs] names_of_Inr [OF ts] cl by (simp only: concepts_joined_eq)
qed

theorem concepts_list_is_filtered_concatenation_witness:
  "\<exists>row. enrich_work remdups {} Map.empty example_raw
            (blank_work\<lparr>w_concepts := Val [Val ''AI'', Val ''Other'', Null],
                        w_topics := Val [Val ''Robotics'', Val ''AI'']\<rparr>) = Inr row \<and>
          concepts_list row = ''AI;Robotics;AI''"
proof -
  let ?w = "blank_work\<lparr>w_concepts := Val [Val ''AI'', Val ''Other'', Null],
                       w_topics := Val [Val ''Robotics'', Val ''AI'']\<rparr>"
  obtain row where r: "enrich_work remdups {} Map.empty example_raw ?w = Inr row"
    using enrich_concepts_example by (cases "enrich_work remdups {} Map.empty example_raw ?w") auto
  have "concepts_list row = ''AI;Robotics;AI''"
    using concepts_list_is_filtered_concatenation [OF r]
    by (simp add: blank_work_def entries_def lower_def lower_char_def)
  with r show ?thesis by blast
qed

text \<open>
  C7 as stated fails: the concept list is not deduplicated. A work whose \<open>concepts\<close> and
  \<open>topics\<close> both name "AI" gets the list "AI;AI".
\<close>

theorem concepts_list_keeps_duplicates:
  "map_sum id concepts_list
     (enrich_work remdups {} Map.empty example_raw
        (blank_work\<lparr>w_concepts := Val [Val ''AI''], w_topics := Val [Val ''AI'']\<rparr>)) =
   Inr ''AI;AI''"
  by (simp add: enrich_work_def primary_source_of_def blank_work_def names_of_def
        concepts_joined_def lower_def lower_char_def Let_def)

lemma enumerates_remdups: "enumerates remdups"
  by (simp add: enumerates_def)

lemma enumerates_rev_remdups: "enumerates (\<lambda>xs. rev (remdups xs))"
  by (simp add: enumerates_def)

lemma normalized_issn_list_props:
  assumes "enumerates set_order"
  shows "distinct (normalized_issn_list set_order src)"
    and "set (normalized_issn_list set_order src) =
           {c. \<exists>x. x \<in> set (collect_issns src) \<and> c = normalize_issn (PyStr x) \<and> c \<noteq> []}"
  using assms unfolding normalized_issn_list_def enumerates_def by auto

lemma distinct_small_eq:
  assumes "distinct xs" "distinct ys" "set xs = set ys" "length xs \<le> 1"
  shows "xs = ys"
proof -
  have "length ys = length xs"
    using assms(1-3) by (metis distinct_card)
  with assms show ?thesis
    by (cases xs; cases ys) (auto simp: length_Suc_conv)
qed

lemma two_issn_forward:
  "map_sum id (\<lambda>r. (source_issn r, venue_issn_list r))
     (enrich_work remdups {} Map.empty example_raw two_issn_work) =
   Inr ([''11111111'', ''22222222''], ''11111111;22222222'')"
  by (simp add: enrich_work_def primary_source_of_def blank_work_def two_issn_work_def
        names_of_def concepts_joined_def normalized_issn_list_def collect_issns_def
        upper_def upper_char_def strip_def is_space_def Let_def)

lemma two_issn_backward:
  "map_sum id (\<lambda>r. (source_issn r, venue_issn_list r))
     (enrich_work (\<lambda>xs. rev (remdups xs)) {} Map.empty example_raw two_issn_work) =
   Inr ([''22222222'', ''11111111''], ''22222222;11111111'')"
  by (simp add: enrich_work_def primary_source_of_def blank_work_def two_issn_work_def
        names_of_def concepts_joined_def normalized_issn_list_def collect_issns_def
        upper_def upper_char_def strip_def is_space_def Let_def)

text \<open>
  C8, as the code has it. The venue identifier list holds each non-empty normalised
  identifier of the primary venue exactly once, in the order in which the runtime
  iterates the set; the code does not sort it. \<open>venue_issn_list\<close> is \<open>source_issn\<close>
  joined by semicolons. Two runs give the same identifiers; they give the same order
  when there is at most one identifier (or, trivially, when the runtime iterates the set
  in the same order).
\<close>

theorem venue_issn_list_order_follows_set_iteration:
  assumes "enumerates set_order" and "enumerates set_order'"
    and "enrich_work set_order S D orig w = Inr row"
    and "enrich_work set_order' S D orig w = Inr row'"
    and "primary_source_of w = Inr src"
  shows "distinct (source_issn row) \<and>
         set (source_issn row) =
           {c. \<exists>x. x \<in> set (collect_issns src) \<and> c = normalize_issn (PyStr x) \<and> c \<noteq> []} \<and>
         venue_issn_list row = join '';'' (source_issn row) \<and>
         set (source_issn row') = set (source_issn row) \<and>
         (length (source_issn row) \<le> 1 \<longrightarrow>
            source_issn row' = source_issn row \<and> venue_issn_list row' = venue_issn_list row)"
proof -
  from assms(3,5) have si: "source_issn row = normalized_issn_list set_order src"
    and vi: "venue_issn_list row = join '';'' (source_issn row)"
    by (auto elim!: enrich_work_Inr)
  from assms(4,5) have si': "source_issn row' = normalized_issn_list set_order' src"
    and vi': "venue_issn_list row' = join '';'' (source_issn row')"
    by (auto elim!: enrich_work_Inr)
  note p = normalized_issn_list_props [OF assms(1), of src]
  note p' = normalized_issn_list_props [OF assms(2), of src]
  have same: "set (source_issn row') = set (source_issn row)"
    using p(2) p'(2) si si' by simp
  have "source_issn row = source_issn row'" if "length (source_issn row) \<le> 1"
    using distinct_small_eq [of "source_issn row" "source_issn row'"] p(1) p'(1) si si' same that
    by simp
  then show ?thesis
    using p si vi vi' same by auto
qed

theorem venue_issn_list_order_follows_set_iteration_witness:
  "\<exists>row row'.
     enrich_work remdups {} Map.empty example_raw two_issn_work = Inr row \<and>
     enrich_work (\<lambda>xs. rev (remdups xs)) {} Map.empty example_raw two_issn_work = Inr row' \<and>
     distinct (source_issn row) \<and>
     set (source_issn row') = set (source_issn row) \<and>
     venue_issn_list row = join '';'' (source_issn row)"
proof -
  obtain row where r: "enrich_work remdups {} Map.empty example_raw two_issn_work = Inr row"
    using two_issn_forward
    by (cases "enrich_work remdups {} Map.empty example_raw two_issn_work") auto
  obtain row' where r':
    "enrich_work (\<lambda>xs. rev (remdups xs)) {} Map.empty example_raw two_issn_work = Inr row'"
    using two_issn_backward
    by (cases "enrich_work (\<lambda>xs. rev (remdups xs)) {} Map.empty example_raw two_issn_work") auto
  have src: "primary_source_of two_issn_work =
     Inr \<lparr> src_display_name = Val ''Journal'', src_type = Missing,
           src_issn_l = Val ''1111-1111'',
           src_issn = Val (IssnMany [''1111-1111'', ''2222-2222'']) \<rparr>"
    by (simp add: primary_source_of_def two_issn_work_def blank_work_def)
  show ?thesis
    using venue_issn_list_order_follows_set_iteration
            [OF enumerates_remdups enumerates_rev_remdups r r' src] r r'
    by blast
qed

text \<open>
  C8 as stated fails: the order is not fixed. Two iterations of the same set, both
  listing each element once, give the same external record two different orders of
  \<open>source_issn\<close> and of \<open>venue_issn_list\<close>.
\<close>

theorem venue_issn_list_order_not_fixed:
  "enumerates remdups \<and> enumerates (\<lambda>xs. rev (remdups xs)) \<and>
   map_sum id (\<lambda>r. (source_issn r, venue_issn_list r))
     (enrich_work remdups {} Map.empty example_raw two_issn_work) =
     Inr ([''11111111'', ''22222222''], ''11111111;22222222'') \<and>
   map_sum id (\<lambda>r. (source_issn r, venue_issn_list r))
     (enrich_work (\<lambda>xs. rev (remdups xs)) {} Map.empty example_raw two_issn_work) =
     Inr ([''22222222'', ''11111111''], ''22222222;11111111'')"
  using enumerates_remdups enumerates_rev_remdups two_issn_forward two_issn_backward
  by (intro conjI)

section \<open>Claims about the quartile resolver\<close>

lemma find_tier_eq:
  "find_tier row cols =
     (case find (\<lambda>qcol. trimmed_label row qcol \<noteq> None) cols of
        None \<Rightarrow> None
      | Some qcol \<Rightarrow> trimmed_label row qcol)"
  by (induction cols) (auto simp: trimmed_label_def Let_def split: option.splits)

lemma find_tier_row_tier: "find_tier row tier_columns = row_tier trimmed_label row"
  by (simp add: find_tier_eq row_tier_def)

lemma scan_candidates_eq:
  "scan_candidates row t cs =
     (if t \<in> set (map (\<lambda>c. normalize_issn (PyStr c)) cs)
      then find_tier row tier_columns else None)"
  by (induction cs) (auto split: option.splits)

lemma scan_values_eq:
  "scan_values row t vs =
     (if t \<in> set (concat (map (\<lambda>issn_raw. map (\<lambda>c. normalize_issn (PyStr c))
                                  (map strip (split_on CHR '','' issn_raw))) vs))
      then find_tier row tier_columns else None)"
  by (induction vs) (auto simp: scan_candidates_eq split: option.splits)

lemma scan_rows_eq: "scan_rows t rows = first_match trimmed_label t rows"
proof (induction rows)
  case Nil
  then show ?case by (simp add: first_match_def)
next
  case (Cons row rows)
  have v: "scan_values row t (issn_values row) =
     (if t \<in> set (row_identifiers row) then row_tier trimmed_label row else None)"
    unfolding scan_values_eq row_identifiers_def find_tier_row_tier ..
  show ?case
    using Cons.IH by (auto simp: v first_match_def split: option.splits)
qed

lemma resolve_padded_first:
  "get_scimago_quartile [2022 \<mapsto> [padded_row, plain_row]] ''1234-5678'' 2022 = Some ''Q1''"
  by (simp add: get_scimago_quartile_def padded_row_def plain_row_def issn_values_def
        issn_named_def lower_def lower_char_def tier_columns_def tier_labels_def
        upper_def upper_char_def strip_def is_space_def)

lemma exact_reading_padded_first:
  "first_match exact_label (normalize_issn (PyStr ''1234-5678'')) [padded_row, plain_row] =
   Some ''Q2''"
  by (simp add: first_match_def row_tier_def exact_label_def row_identifiers_def
        padded_row_def plain_row_def issn_values_def
        issn_named_def lower_def lower_char_def tier_columns_def tier_labels_def
        upper_def upper_char_def strip_def is_space_def)

lemma resolve_hyphen_target:
  "get_scimago_quartile [2022 \<mapsto> [trailing_comma_row]] ''-'' 2022 = None"
  by (simp add: get_scimago_quartile_def upper_def upper_char_def strip_def is_space_def)

lemma exact_reading_hyphen_target:
  "first_match exact_label (normalize_issn (PyStr ''-'')) [trailing_comma_row] = Some ''Q3''"
  by (simp add: first_match_def row_tier_def exact_label_def row_identifiers_def
        trailing_comma_row_def issn_values_def
        issn_named_def lower_def lower_char_def tier_columns_def tier_labels_def
        upper_def upper_char_def strip_def is_space_def)

lemma trimmed_reading_plain_first:
  "first_match trimmed_label (normalize_issn (PyStr ''1234-5678'')) [plain_row, padded_row] =
   Some ''Q2''"
  by (simp add: first_match_def row_tier_def trimmed_label_def row_identifiers_def
        padded_row_def plain_row_def issn_values_def
        issn_named_def lower_def lower_char_def tier_columns_def tier_labels_def
        upper_def upper_char_def strip_def is_space_def)

text \<open>
  C4, as the code has it. A target whose normalisation is empty, or a year with no
  table, resolves to nothing. Otherwise the rows are scanned in table order and the
  result is the tier of the first row whose split and normalised identifier values
  contain the normalised target and one of whose tier columns holds, once the
  surrounding whitespace is trimmed, one of the labels Q1 to Q4. So when the first row
  of the table matches with a tier, that tier is returned whatever rows follow (a later
  row matching the same identifier with another tier does not count); and when no row
  matches with a tier the result is absent.
\<close>

theorem get_scimago_quartile_first_match:
  "get_scimago_quartile data issn year =
     (if normalize_issn (PyStr issn) = [] then None
      else case data year of
             None \<Rightarrow> None
           | Some rows \<Rightarrow> first_match trimmed_label (normalize_issn (PyStr issn)) rows) \<and>
   (normalize_issn (PyStr issn) \<noteq> [] \<and>
    normalize_issn (PyStr issn) \<in> set (row_identifiers r1) \<and>
    row_tier trimmed_label r1 = Some q1 \<longrightarrow>
      get_scimago_quartile (data(year \<mapsto> r1 # rest)) issn year = Some q1) \<and>
   (data year = Some rows \<and>
    (\<forall>r. r \<in> set rows \<longrightarrow>
         \<not> (normalize_issn (PyStr issn) \<in> set (row_identifiers r) \<and>
            row_tier trimmed_label r \<noteq> None)) \<longrightarrow>
      get_scimago_quartile data issn year = None)"
proof -
  have e: "normalize_issn (PyStr []) = []"
    by (simp add: upper_def strip_def)
  have main: "get_scimago_quartile data issn year =
     (if normalize_issn (PyStr issn) = [] then None
      else case data year of
             None \<Rightarrow> None
           | Some rows \<Rightarrow> first_match trimmed_label (normalize_issn (PyStr issn)) rows)"
    for data
    using e by (auto simp: get_scimago_quartile_def scan_rows_eq Let_def split: option.splits)
  have none: "first_match trimmed_label t rows = None"
    if "\<forall>r. r \<in> set rows \<longrightarrow>
            \<not> (t \<in> set (row_identifiers r) \<and> row_tier trimmed_label r \<noteq> None)"
    for t
  proof -
    from that have
      "find (\<lambda>row. t \<in> set (row_identifiers row) \<and> row_tier trimmed_label row \<noteq> None) rows =
       None"
      by (simp add: find_None_iff)
    then show ?thesis by (simp add: first_match_def)
  qed
  show ?thesis
    using none by (auto simp: main first_match_def)
qed

theorem get_scimago_quartile_first_match_witness:
  "get_scimago_quartile [2022 \<mapsto> [plain_row, padded_row]] ''1234-5678'' 2022 = Some ''Q2''"
  using get_scimago_quartile_first_match
          [of "[2022 \<mapsto> [plain_row, padded_row]]" "''1234-5678''" 2022]
        trimmed_reading_plain_first
  by (simp add: upper_def upper_char_def strip_def is_space_def)

text \<open>
  C4 as stated fails in two places. The tier cell is trimmed before it is compared with
  the labels: the first row's cell is a space followed by \<open>Q1\<close>, which is not exactly a
  label, so the first row whose tier column holds exactly a label is the second one
  (\<open>Q2\<close>), yet the resolver returns \<open>Q1\<close>. And a target whose normalisation is empty
  resolves to nothing, although the row's identifier cell, split at its trailing comma,
  contains the empty string and its tier column holds \<open>Q3\<close>.
\<close>

theorem get_scimago_quartile_not_exact_first_match:
  "get_scimago_quartile [2022 \<mapsto> [padded_row, plain_row]] ''1234-5678'' 2022 = Some ''Q1'' \<and>
   first_match exact_label (normalize_issn (PyStr ''1234-5678'')) [padded_row, plain_row] =
     Some ''Q2'' \<and>
   get_scimago_quartile [2022 \<mapsto> [trailing_comma_row]] ''-'' 2022 = None \<and>
   first_match exact_label (normalize_issn (PyStr ''-'')) [trailing_comma_row] = Some ''Q3''"
  using resolve_padded_first exact_reading_padded_first resolve_hyphen_target
        exact_reading_hyphen_target
  by (intro conjI)

section \<open>Claims about the fetcher\<close>

lemma fetch_hit:
  "wid \<noteq> [] \<Longrightarrow> openalex_cache s wid = Some d \<Longrightarrow> get_work_details_single net s wid = (Some d, s)"
  by (simp add: get_work_details_single_def)

lemma fetch_Some:
  "get_work_details_single net s wid = (Some d, s1) \<Longrightarrow> wid \<noteq> [] \<and> openalex_cache s1 wid = Some d"
  by (auto simp: get_work_details_single_def Let_def split: if_splits option.splits response.splits)

lemma fetch_cache_mono:
  "openalex_cache s k = Some d \<Longrightarrow> openalex_cache (snd (get_work_details_single net s wid)) k = Some d"
  by (auto simp: get_work_details_single_def Let_def split: if_splits option.splits response.splits)

lemma fetch_requested_other:
  "openalex_cache s k = Some d \<Longrightarrow>
   count_list (requested (snd (get_work_details_single net s wid))) k = count_list (requested s) k"
  by (auto simp: get_work_details_single_def Let_def split: if_splits option.splits response.splits)

lemma snd_fetch_all_Cons:
  "snd (fetch_all net s (wid # wids)) =
   snd (fetch_all net (snd (get_work_details_single net s wid)) wids)"
  by (simp split: prod.splits)

lemma fetch_all_cached:
  "openalex_cache s k = Some d \<Longrightarrow>
   openalex_cache (snd (fetch_all net s wids)) k = Some d \<and>
   count_list (requested (snd (fetch_all net s wids))) k = count_list (requested s) k"
proof (induction wids arbitrary: s)
  case Nil
  then show ?case by simp
next
  case (Cons wid wids)
  let ?s1 = "snd (get_work_details_single net s wid)"
  have c1: "openalex_cache ?s1 k = Some d"
    using Cons.prems by (rule fetch_cache_mono)
  have r1: "count_list (requested ?s1) k = count_list (requested s) k"
    using Cons.prems by (rule fetch_requested_other)
  show ?case
    unfolding snd_fetch_all_Cons using Cons.IH [OF c1] r1 by simp
qed

lemma fetch_keeps_uncached:
  "openalex_cache s k = None \<Longrightarrow> wid \<noteq> k \<Longrightarrow>
   openalex_cache (snd (get_work_details_single net s wid)) k = None"
  by (auto simp: get_work_details_single_def Let_def split: if_splits option.splits response.splits)

lemma fetch_all_keeps_uncached:
  "openalex_cache s k = None \<Longrightarrow> k \<notin> set wids \<Longrightarrow>
   openalex_cache (snd (fetch_all net s wids)) k = None"
proof (induction wids arbitrary: s)
  case Nil
  then show ?case by simp
next
  case (Cons wid wids)
  let ?s1 = "snd (get_work_details_single net s wid)"
  from Cons.prems have "wid \<noteq> k" and rest: "k \<notin> set wids"
    by auto
  with Cons.prems(1) have "openalex_cache ?s1 k = None"
    by (intro fetch_keeps_uncached)
  then show ?case
    unfolding snd_fetch_all_Cons using rest by (rule Cons.IH)
qed

lemma fetch_miss_requests:
  "wid \<noteq> [] \<Longrightarrow> openalex_cache s wid = None \<Longrightarrow>
   requested (snd (get_work_details_single net s wid)) = requested s @ [wid]"
  by (auto simp: get_work_details_single_def Let_def split: if_splits option.splits response.splits)

lemma fetch_failed:
  "wid \<noteq> [] \<Longrightarrow> openalex_cache s wid = None \<Longrightarrow> failed (net (length (requested s)) wid) \<Longrightarrow>
   get_work_details_single net s wid = (None, s\<lparr>requested := requested s @ [wid]\<rparr>)"
  by (auto simp: get_work_details_single_def failed_def Let_def split: response.splits)

lemma fetch_empty: "get_work_details_single net s [] = (None, s)"
  by (simp add: get_work_details_single_def)

lemma fetch_success:
  "wid \<noteq> [] \<Longrightarrow> openalex_cache s wid = None \<Longrightarrow>
   net (length (requested s)) wid = Response 200 (Some data) \<Longrightarrow>
   get_work_details_single net s wid =
     (Some data, s\<lparr>requested := requested s @ [wid],
                    openalex_cache := (openalex_cache s)(wid \<mapsto> data)\<rparr>)"
  by (simp add: get_work_details_single_def)

lemma fetch_unparsable:
  "wid \<noteq> [] \<Longrightarrow> openalex_cache s wid = None \<Longrightarrow>
   net (length (requested s)) wid = Response 200 None \<Longrightarrow>
   get_work_details_single net s wid = (None, s\<lparr>requested := requested s @ [wid]\<rparr>)"
  by (simp add: get_work_details_single_def)

lemma fetch_once_step:
  assumes ok: "\<forall>n. \<exists>data. net n wid = Response 200 (Some data)"
    and inv: "count_list (requested s) wid = (if openalex_cache s wid = None then 0 else 1)"
  shows "count_list (requested (snd (get_work_details_single net s k))) wid =
           (if openalex_cache (snd (get_work_details_single net s k)) wid = None then 0 else 1)"
proof (cases "k = [] \<or> openalex_cache s k \<noteq> None")
  case True
  then show ?thesis
    using inv by (auto simp: get_work_details_single_def)
next
  case False
  then have ne: "k \<noteq> []" and miss: "openalex_cache s k = None"
    by auto
  show ?thesis
  proof (cases "k = wid")
    case True
    from ok obtain data where "net (length (requested s)) wid = Response 200 (Some data)"
      by blast
    then show ?thesis
      using fetch_success [of wid s net data] ne miss True inv by simp
  next
    case False
    then show ?thesis
      using inv ne miss
      by (auto simp: get_work_details_single_def Let_def split: response.splits option.splits)
  qed
qed

lemma fetch_once_all:
  assumes ok: "\<forall>n. \<exists>data. net n wid = Response 200 (Some data)"
  shows "count_list (requested s) wid = (if openalex_cache s wid = None then 0 else 1) \<Longrightarrow>
         count_list (requested (snd (fetch_all net s wids))) wid =
           (if openalex_cache (snd (fetch_all net s wids)) wid = None then 0 else 1)"
proof (induction wids arbitrary: s)
  case Nil
  then show ?case by simp
next
  case (Cons k wids)
  have "count_list (requested (snd (get_work_details_single net s k))) wid =
          (if openalex_cache (snd (get_work_details_single net s k)) wid = None then 0 else 1)"
    using ok Cons.prems by (rule fetch_once_step)
  then show ?case
    unfolding snd_fetch_all_Cons by (rule Cons.IH)
qed

text \<open>
  C1. A fetch for the empty identifier returns nothing and requests nothing; a fetch for
  a cached identifier returns the cached record and requests nothing. A fetch for an
  uncached identifier that meets a 200 answer with a parsed body returns that record and
  stores it, with one request; after that, and after any further sequence of fetch
  calls, a fetch for the identifier returns the same record and leaves the fetcher as
  it is, and the number of requests made for the identifier has grown by exactly that
  one. So when the source answers every request for an identifier with a record, any
  sequence of calls from a fresh fetcher requests that identifier at most once. More
  generally, once a fetch has returned a record, later fetches return it without a
  request. A fetch for an uncached identifier that meets a failed response (a transport
  failure, a status other than 200, or a 200 whose body does not parse) returns nothing
  and leaves the cache unchanged; the request is recorded, and after any calls for other
  identifiers the next fetch for the same identifier requests the source again.
\<close>

theorem fetch_memoizes_successes_only:
  "get_work_details_single net s [] = (None, s) \<and>
   (wid \<noteq> [] \<and> openalex_cache s wid = Some d \<longrightarrow>
      get_work_details_single net s wid = (Some d, s)) \<and>
   (wid \<noteq> [] \<and> openalex_cache s wid = None \<and>
    net (length (requested s)) wid = Response 200 (Some data) \<longrightarrow>
      (let s1 = s\<lparr>requested := requested s @ [wid],
                   openalex_cache := (openalex_cache s)(wid \<mapsto> data)\<rparr>;
           s2 = snd (fetch_all net s1 wids)
       in get_work_details_single net s wid = (Some data, s1) \<and>
          get_work_details_single net s2 wid = (Some data, s2) \<and>
          count_list (requested s2) wid = count_list (requested s) wid + 1)) \<and>
   ((\<forall>n. \<exists>body. net n wid = Response 200 (Some body)) \<longrightarrow>
      count_list (requested (snd (fetch_all net fresh_fetcher wids))) wid \<le> 1) \<and>
   (get_work_details_single net s wid = (Some d, s') \<longrightarrow>
      (let s2 = snd (fetch_all net s' wids)
       in get_work_details_single net s2 wid = (Some d, s2) \<and>
          count_list (requested s2) wid = count_list (requested s') wid)) \<and>
   (wid \<noteq> [] \<and> openalex_cache s wid = None \<and>
    (failed (net (length (requested s)) wid) \<or>
     net (length (requested s)) wid = Response 200 None) \<longrightarrow>
      (let s1 = snd (get_work_details_single net s wid)
       in fst (get_work_details_single net s wid) = None \<and>
          openalex_cache s1 = openalex_cache s \<and>
          requested s1 = requested s @ [wid] \<and>
          (wid \<notin> set wids \<longrightarrow>
             (let s2 = snd (fetch_all net s1 wids)
              in requested (snd (get_work_details_single net s2 wid)) = requested s2 @ [wid]))))"
proof (intro conjI impI)
  show "get_work_details_single net s [] = (None, s)"
    by (rule fetch_empty)
next
  assume "wid \<noteq> [] \<and> openalex_cache s wid = Some d"
  then show "get_work_details_single net s wid = (Some d, s)"
    using fetch_hit by blast
next
  assume a: "wid \<noteq> [] \<and> openalex_cache s wid = None \<and>
             net (length (requested s)) wid = Response 200 (Some data)"
  define s1 where "s1 = s\<lparr>requested := requested s @ [wid],
                           openalex_cache := (openalex_cache s)(wid \<mapsto> data)\<rparr>"
  have f: "get_work_details_single net s wid = (Some data, s1)"
    unfolding s1_def using a by (intro fetch_success) simp_all
  have c: "openalex_cache s1 wid = Some data"
    by (simp add: s1_def)
  have r: "count_list (requested s1) wid = count_list (requested s) wid + 1"
    by (simp add: s1_def)
  have ne: "wid \<noteq> []" using a by simp
  show "let s1 = s\<lparr>requested := requested s @ [wid],
                   openalex_cache := (openalex_cache s)(wid \<mapsto> data)\<rparr>;
           s2 = snd (fetch_all net s1 wids)
       in get_work_details_single net s wid = (Some data, s1) \<and>
          get_work_details_single net s2 wid = (Some data, s2) \<and>
          count_list (requested s2) wid = count_list (requested s) wid + 1"
    unfolding s1_def [symmetric] Let_def
    using f fetch_all_cached [OF c, of net wids] fetch_hit [OF ne] r by simp
next
  assume ok: "\<forall>n. \<exists>body. net n wid = Response 200 (Some body)"
  have "count_list (requested fresh_fetcher) wid =
          (if openalex_cache fresh_fetcher wid = None then 0 else 1)"
    by (simp add: fresh_fetcher_def)
  with ok have "count_list (requested (snd (fetch_all net fresh_fetcher wids))) wid =
      (if openalex_cache (snd (fetch_all net fresh_fetcher wids)) wid = None then 0 else 1)"
    by (rule fetch_once_all)
  then show "count_list (requested (snd (fetch_all net fresh_fetcher wids))) wid \<le> 1"
    by (simp split: if_splits)
next
  assume a: "get_work_details_single net s wid = (Some d, s')"
  then have ne: "wid \<noteq> []" and c: "openalex_cache s' wid = Some d"
    using fetch_Some by blast+
  show "let s2 = snd (fetch_all net s' wids)
       in get_work_details_single net s2 wid = (Some d, s2) \<and>
          count_list (requested s2) wid = count_list (requested s') wid"
    using fetch_all_cached [OF c, of net wids] fetch_hit [OF ne] by (simp add: Let_def)
next
  assume a: "wid \<noteq> [] \<and> openalex_cache s wid = None \<and>
             (failed (net (length (requested s)) wid) \<or>
              net (length (requested s)) wid = Response 200 None)"
  then have f: "get_work_details_single net s wid = (None, s\<lparr>requested := requested s @ [wid]\<rparr>)"
    using fetch_failed fetch_unparsable by blast
  have later: "requested (snd (get_work_details_single net s2 wid)) = requested s2 @ [wid]"
    if "wid \<notin> set wids" and "s2 = snd (fetch_all net (s\<lparr>requested := requested s @ [wid]\<rparr>) wids)"
    for s2
  proof -
    have "openalex_cache s2 wid = None"
      unfolding that(2) using a that(1) by (intro fetch_all_keeps_uncached) simp_all
    then show ?thesis
      using a by (intro fetch_miss_requests) simp_all
  qed
  show "let s1 = snd (get_work_details_single net s wid)
       in fst (get_work_details_single net s wid) = None \<and>
          openalex_cache s1 = openalex_cache s \<and>
          requested s1 = requested s @ [wid] \<and>
          (wid \<notin> set wids \<longrightarrow>
             (let s2 = snd (fetch_all net s1 wids)
              in requested (snd (get_work_details_single net s2 wid)) = requested s2 @ [wid]))"
    using later by (simp add: f Let_def)
qed


lemma flaky_first_call:
  "get_work_details_single flaky_network fresh_fetcher ''W1'' =
   (None, \<lparr> openalex_cache = Map.empty, requested = [''W1''] \<rparr>)"
  by (simp add: get_work_details_single_def flaky_network_def fresh_fetcher_def)

lemma flaky_second_call:
  "get_work_details_single flaky_network
     \<lparr> openalex_cache = Map.empty, requested = [''W1''] \<rparr> ''W1'' =
   (Some BodyFalsy, \<lparr> openalex_cache = [''W1'' \<mapsto> BodyFalsy], requested = [''W1'', ''W1''] \<rparr>)"
  by (simp add: get_work_details_single_def flaky_network_def)

theorem fetch_memoizes_successes_only_witness:
  "requested (snd (get_work_details_single flaky_network
       (snd (get_work_details_single flaky_network fresh_fetcher ''W1'')) ''W1'')) =
     [''W1'', ''W1''] \<and>
   (let s2 = snd (fetch_all flaky_network
                    \<lparr> openalex_cache = [''W1'' \<mapsto> BodyFalsy], requested = [''W1'', ''W1''] \<rparr>
                    [''W2'', ''W1''])
    in get_work_details_single flaky_network s2 ''W1'' = (Some BodyFalsy, s2) \<and>
       count_list (requested s2) ''W1'' = 2) \<and>
   get_work_details_single flaky_network
     \<lparr> openalex_cache = Map.empty, requested = [''W1''] \<rparr> ''W1'' =
     (Some BodyFalsy,
      \<lparr> openalex_cache = [''W1'' \<mapsto> BodyFalsy], requested = [''W1'', ''W1''] \<rparr>) \<and>
   count_list (requested (snd (fetch_all scenario_network fresh_fetcher
                                 [''W1'', ''W1'', ''W1'']))) ''W1'' \<le> 1"
proof -
  note t = fetch_memoizes_successes_only
  have h: "''W1'' \<noteq> [] \<and> openalex_cache fresh_fetcher ''W1'' = None \<and>
     (failed (flaky_network (length (requested fresh_fetcher)) ''W1'') \<or>
      flaky_network (length (requested fresh_fetcher)) ''W1'' = Response 200 None)"
    by (simp add: fresh_fetcher_def flaky_network_def failed_def)
  have a: "requested (snd (get_work_details_single flaky_network
       (snd (get_work_details_single flaky_network fresh_fetcher ''W1'')) ''W1'')) =
     [''W1'', ''W1'']"
    using t [where net = flaky_network and s = fresh_fetcher and wid = "''W1''" and wids = "[]"
               and d = BodyFalsy and data = BodyFalsy and s' = fresh_fetcher,
             THEN conjunct2, THEN conjunct2, THEN conjunct2, THEN conjunct2, THEN conjunct2,
             THEN mp, OF h]
    by (simp add: Let_def fresh_fetcher_def)
  have b: "let s2 = snd (fetch_all flaky_network
                    \<lparr> openalex_cache = [''W1'' \<mapsto> BodyFalsy], requested = [''W1'', ''W1''] \<rparr>
                    [''W2'', ''W1''])
    in get_work_details_single flaky_network s2 ''W1'' = (Some BodyFalsy, s2) \<and>
       count_list (requested s2) ''W1'' = 2"
    using t [where net = flaky_network
               and s = "\<lparr> openalex_cache = Map.empty, requested = [''W1''] \<rparr>"
               and wid = "''W1''" and d = BodyFalsy and data = BodyFalsy
               and s' = "\<lparr> openalex_cache = [''W1'' \<mapsto> BodyFalsy],
                           requested = [''W1'', ''W1''] \<rparr>"
               and wids = "[''W2'', ''W1'']",
             THEN conjunct2, THEN conjunct2, THEN conjunct2, THEN conjunct2, THEN conjunct1,
             THEN mp, OF flaky_second_call]
    by (simp add: Let_def)
  have h3: "''W1'' \<noteq> [] \<and>
     openalex_cache \<lparr> openalex_cache = Map.empty, requested = [''W1''] \<rparr> ''W1'' = None \<and>
     flaky_network (length (requested \<lparr> openalex_cache = Map.empty, requested = [''W1''] \<rparr>))
       ''W1'' = Response 200 (Some BodyFalsy)"
    by (simp add: flaky_network_def)
  have c: "get_work_details_single flaky_network
     \<lparr> openalex_cache = Map.empty, requested = [''W1''] \<rparr> ''W1'' =
     (Some BodyFalsy,
      \<lparr> openalex_cache = [''W1'' \<mapsto> BodyFalsy], requested = [''W1'', ''W1''] \<rparr>)"
    using t [where net = flaky_network
               and s = "\<lparr> openalex_cache = Map.empty, requested = [''W1''] \<rparr>"
               and wid = "''W1''" and d = BodyFalsy and data = BodyFalsy
               and s' = fresh_fetcher and wids = "[]",
             THEN conjunct2, THEN conjunct2, THEN conjunct1, THEN mp, OF h3]
    by (simp add: Let_def)
  have h4: "\<forall>n. \<exists>body. scenario_network n ''W1'' = Response 200 (Some body)"
    by (simp add: scenario_network_def)
  have d: "count_list (requested (snd (fetch_all scenario_network fresh_fetcher
                                 [''W1'', ''W1'', ''W1'']))) ''W1'' \<le> 1"
    by (rule t [where net = scenario_network and wid = "''W1''"
                  and wids = "[''W1'', ''W1'', ''W1'']"
                  and s = fresh_fetcher and d = BodyFalsy and data = BodyFalsy
                  and s' = fresh_fetcher,
                THEN conjunct2, THEN conjunct2, THEN conjunct2, THEN conjunct1,
                THEN mp, OF h4])
  show ?thesis using a b c d by simp
qed

section \<open>Claims about the enrichment of a table\<close>

lemma fst_fetch_all_Cons:
  "fst (fetch_all net s (wid # wids)) =
   (wid, fst (get_work_details_single net s wid)) #
   fst (fetch_all net (snd (get_work_details_single net s wid)) wids)"
  by (simp split: prod.splits)

lemma fetch_all_ids: "map fst (fst (fetch_all net s wids)) = wids"
proof (induction wids arbitrary: s)
  case Nil
  then show ?case by simp
next
  case (Cons wid wids)
  show ?case
    unfolding fst_fetch_all_Cons by (simp add: Cons.IH)
qed

lemma first_with_id_member:
  assumes "r \<in> set df"
  shows "\<exists>orig. first_with_id (clean_id r) df = Some orig"
proof (cases "first_with_id (clean_id r) df")
  case None
  then show ?thesis
    using assms by (auto simp: first_with_id_def clean_id_def find_None_iff)
qed simp

lemma first_with_id_distinct:
  assumes "distinct (map clean_id df)" and "i < length df"
  shows "first_with_id (clean_id (df ! i)) df = Some (df ! i)"
proof -
  have *: "j = i" if "j < length df" and "clean_id (df ! j) = clean_id (df ! i)" for j
    using that assms by (metis (no_types, lifting) length_map nth_eq_iff_index_eq nth_map)
  have "\<forall>j<i. \<not> clean_id (df ! j) = clean_id (df ! i)"
  proof (intro allI impI)
    fix j
    assume "j < i"
    then have "j < length df" and "j \<noteq> i"
      using assms(2) by simp_all
    then show "\<not> clean_id (df ! j) = clean_id (df ! i)"
      using * by blast
  qed
  then show ?thesis
    unfolding first_with_id_def find_Some_iff clean_id_def [symmetric]
    using assms(2) by (auto simp: clean_id_def)
qed

lemma process_works_Inr:
  assumes "\<forall>p \<in> set details. first_with_id (fst p) df \<noteq> None"
    and "process_works so S D df details = Inr rows"
  shows "list_all2 (\<lambda>p row. \<exists>orig. first_with_id (fst p) df = Some orig \<and>
                              process_one so S D orig (snd p) = Inr row) details rows"
  using assms
proof (induction details arbitrary: rows)
  case Nil
  then show ?case by simp
next
  case (Cons p details)
  obtain wid d where p: "p = (wid, d)" by (cases p)
  from Cons.prems(1) p obtain orig where o: "first_with_id wid df = Some orig"
    by auto
  from Cons.prems(2) p o obtain row rest where
    r: "process_one so S D orig d = Inr row" and
    rs: "process_works so S D df details = Inr rest" and
    rows: "rows = row # rest"
    by (auto split: sum.splits)
  have "list_all2 (\<lambda>p row. \<exists>orig. first_with_id (fst p) df = Some orig \<and>
                              process_one so S D orig (snd p) = Inr row) details rest"
    using Cons.IH [OF _ rs] Cons.prems(1) by simp
  then show ?case
    using p o r rows by simp
qed

lemma process_works_absent:
  assumes "\<forall>p \<in> set details. absent (snd p)"
  shows "\<exists>rows. process_works so S D df details = Inr rows"
  using assms
proof (induction details)
  case Nil
  then show ?case by simp
next
  case (Cons p details)
  obtain wid d where p: "p = (wid, d)" by (cases p)
  from Cons.prems p have a: "absent d" by simp
  then have one: "process_one so S D orig d = Inr (fallback_row orig)" for orig
    by (auto simp: absent_def process_one_def)
  from Cons obtain rest where "process_works so S D df details = Inr rest"
    by auto
  then show ?case
    using p one by (cases "first_with_id wid df") simp_all
qed

lemma process_one_absent:
  "absent d \<Longrightarrow> process_one so S D orig d = Inr (fallback_row orig)"
  by (auto simp: absent_def process_one_def)

lemma process_one_Inl_present:
  "process_one so S D orig d = Inl e \<Longrightarrow> \<not> absent d"
  by (auto simp: absent_def process_one_def split: option.splits body.splits)

lemma first_with_id_in_set: "first_with_id wid df = Some orig \<Longrightarrow> orig \<in> set df"
  unfolding first_with_id_def find_Some_iff by auto

lemma exact_fallback_row: "exact_raw orig \<Longrightarrow> exact_row (fallback_row orig)"
  by (auto simp: exact_raw_def exact_row_def fallback_row_def get_def get_or_def
        exact_cell_def exact_int_def split: field.splits)

lemma process_works_Inl:
  assumes "\<forall>p \<in> set details. first_with_id (fst p) df \<noteq> None"
    and "process_works so S D df details = Inl e"
  shows "\<exists>i<length details. \<exists>orig. first_with_id (fst (details ! i)) df = Some orig \<and>
            process_one so S D orig (snd (details ! i)) = Inl e"
  using assms
proof (induction details)
  case Nil
  then show ?case by simp
next
  case (Cons p details)
  obtain wid d where p: "p = (wid, d)" by (cases p)
  from Cons.prems(1) p obtain orig where o: "first_with_id wid df = Some orig"
    by auto
  show ?case
  proof (cases "process_one so S D orig d")
    case (Inl e')
    with Cons.prems(2) p o have "e' = e" by simp
    with Inl p o have "first_with_id (fst ((p # details) ! 0)) df = Some orig \<and>
        process_one so S D orig (snd ((p # details) ! 0)) = Inl e"
      by simp
    then show ?thesis by blast
  next
    case (Inr row)
    with Cons.prems(2) p o have "process_works so S D df details = Inl e"
      by (simp split: sum.splits)
    with Cons.IH Cons.prems(1) obtain i orig' where
      "i < length details" and
      "first_with_id (fst (details ! i)) df = Some orig'" and
      "process_one so S D orig' (snd (details ! i)) = Inl e"
      by auto
    then have "Suc i < length (p # details) \<and>
        first_with_id (fst ((p # details) ! Suc i)) df = Some orig' \<and>
        process_one so S D orig' (snd ((p # details) ! Suc i)) = Inl e"
      by simp
    then show ?thesis by blast
  qed
qed

lemma enhance_unfold:
  "enhance_all_dataset so net S D self df =
     (if ''work_id'' \<notin> set (columns df) then Raises KeyError
      else case process_works so S D (records df)
                  (fst (fetch_all net self (map clean_id (records df)))) of
             Inl e \<Rightarrow> Raises e
           | Inr rows0 \<Rightarrow>
               (if list_all exact_row rows0
                then Returns (map coerce_numeric rows0,
                              snd (fetch_all net self (map clean_id (records df))))
                else Unmodelled))"
proof -
  obtain x1 x2 where f: "fetch_all net self (map clean_id (records df)) = (x1, x2)"
    by (cases "fetch_all net self (map clean_id (records df))")
  have m: "map (\<lambda>r. normalize_openalex_id (raw_work_id r)) (records df) =
           map clean_id (records df)"
    by (simp add: clean_id_def)
  show ?thesis
    unfolding enhance_all_dataset_def Let_def m f by (simp split: sum.splits)
qed

lemma enhance_Returns:
  assumes cols: "''work_id'' \<in> set (columns df)"
    and run: "enhance_all_dataset so net S D self df = Returns (rows, self')"
  obtains rows0 where
    "process_works so S D (records df) (fst (fetch_all net self (map clean_id (records df)))) =
       Inr rows0"
    "rows = map coerce_numeric rows0"
  using run cols unfolding enhance_unfold by (auto split: sum.splits if_splits)

lemma enhance_Raises:
  assumes cols: "''work_id'' \<in> set (columns df)"
    and run: "enhance_all_dataset so net S D self df = Raises e"
  shows "process_works so S D (records df)
           (fst (fetch_all net self (map clean_id (records df)))) = Inl e"
  using run cols unfolding enhance_unfold by (auto split: sum.splits if_splits)

text \<open>
  C5, as the code has it. For a raw table with a \<open>work_id\<close> column whose integers are
  of magnitude at most \<open>2^53\<close>: if every fetch gave nothing the enrichment returns. When
  it raises, the error comes from processing a record whose fetch gave a document, never
  from one whose fetch gave nothing. Whenever it returns, the enriched table has one row
  per raw record, in order, and the row at the place of a record whose fetch gave
  nothing is the fallback row of the first raw record with the same cleaned identifier:
  flag false, quartile null, source name null, and that record's year. The first record
  with the same cleaned identifier is the record itself when the cleaned identifiers of
  the table are distinct.
\<close>

theorem enhance_keeps_unfetched_records:
  assumes cols: "''work_id'' \<in> set (columns df)"
  shows
  "(let details = fst (fetch_all net self (map clean_id (records df)))
    in ((\<forall>i < length details. absent (snd (details ! i))) \<and>
        (\<forall>r. r \<in> set (records df) \<longrightarrow> exact_raw r) \<longrightarrow>
          (\<exists>rows self'. enhance_all_dataset so net S D self df = Returns (rows, self'))) \<and>
       (\<forall>e. enhance_all_dataset so net S D self df = Raises e \<longrightarrow>
          (\<exists>i < length (records df).
              \<not> absent (snd (details ! i)) \<and>
              (\<exists>orig. first_with_id (clean_id (records df ! i)) (records df) = Some orig \<and>
                      process_one so S D orig (snd (details ! i)) = Inl e))) \<and>
       (\<forall>rows self'. enhance_all_dataset so net S D self df = Returns (rows, self') \<longrightarrow>
          length rows = length (records df) \<and>
          (\<forall>i < length (records df). absent (snd (details ! i)) \<longrightarrow>
             (\<exists>orig. first_with_id (clean_id (records df ! i)) (records df) = Some orig \<and>
                     rows ! i = coerce_numeric (fallback_row orig) \<and>
                     \<not> is_scopus_indexed_flag (rows ! i) \<and>
                     scimago_quartile (rows ! i) = None \<and>
                     source_name (rows ! i) = None \<and>
                     publication_year (rows ! i) = get (raw_publication_year orig) \<and>
                     (distinct (map clean_id (records df)) \<longrightarrow> orig = records df ! i)))))"
proof -
  define details where "details = fst (fetch_all net self (map clean_id (records df)))"
  have ids: "map fst details = map clean_id (records df)"
    unfolding details_def by (rule fetch_all_ids)
  then have len: "length details = length (records df)"
    by (metis length_map)
  have fst_nth: "fst (details ! i) = clean_id (records df ! i)" if "i < length (records df)" for i
    using that ids len by (metis nth_map)
  have found: "\<forall>p \<in> set details. first_with_id (fst p) (records df) \<noteq> None"
  proof
    fix p
    assume "p \<in> set details"
    then have "fst p \<in> set (map clean_id (records df))"
      unfolding ids [symmetric] by simp
    then obtain r where "r \<in> set (records df)" and "fst p = clean_id r"
      by auto
    then show "first_with_id (fst p) (records df) \<noteq> None"
      using first_with_id_member [of r "records df"] by auto
  qed
  have total: "\<exists>rows self'. enhance_all_dataset so net S D self df = Returns (rows, self')"
    if abs: "\<forall>i < length details. absent (snd (details ! i))"
      and ex: "\<forall>r. r \<in> set (records df) \<longrightarrow> exact_raw r"
  proof -
    from abs have "\<forall>p \<in> set details. absent (snd p)"
      by (metis in_set_conv_nth)
    then obtain rows0 where p: "process_works so S D (records df) details = Inr rows0"
      using process_works_absent by blast
    note la = process_works_Inr [OF found p]
    have "exact_row (rows0 ! i)" if i: "i < length rows0" for i
    proof -
      from la i obtain orig where
        o: "first_with_id (fst (details ! i)) (records df) = Some orig" and
        one: "process_one so S D orig (snd (details ! i)) = Inr (rows0 ! i)"
        by (auto simp: list_all2_conv_all_nth)
      have "i < length details"
        using la i by (simp add: list_all2_lengthD)
      with abs have "absent (snd (details ! i))" by simp
      then have "rows0 ! i = fallback_row orig"
        using one process_one_absent [of "snd (details ! i)" so S D orig] by simp
      moreover have "exact_raw orig"
        using ex first_with_id_in_set [OF o] by simp
      ultimately show ?thesis
        by (simp add: exact_fallback_row)
    qed
    then have "list_all exact_row rows0"
      by (simp add: list_all_length)
    with p show ?thesis
      using cols unfolding enhance_unfold details_def by simp
  qed
  have raised:
    "\<exists>i < length (records df).
        \<not> absent (snd (details ! i)) \<and>
        (\<exists>orig. first_with_id (clean_id (records df ! i)) (records df) = Some orig \<and>
                process_one so S D orig (snd (details ! i)) = Inl e)"
    if run: "enhance_all_dataset so net S D self df = Raises e" for e
  proof -
    have "process_works so S D (records df) details = Inl e"
      unfolding details_def using cols run by (rule enhance_Raises)
    from process_works_Inl [OF found this] obtain i orig where
      i: "i < length details" and
      o: "first_with_id (fst (details ! i)) (records df) = Some orig" and
      one: "process_one so S D orig (snd (details ! i)) = Inl e"
      by blast
    from i len have i': "i < length (records df)" by simp
    have "first_with_id (clean_id (records df ! i)) (records df) = Some orig"
      using o fst_nth [OF i'] by simp
    with i' one process_one_Inl_present [OF one] show ?thesis
      by blast
  qed
  have rows_ok:
    "length rows = length (records df) \<and>
     (\<forall>i < length (records df). absent (snd (details ! i)) \<longrightarrow>
        (\<exists>orig. first_with_id (clean_id (records df ! i)) (records df) = Some orig \<and>
                rows ! i = coerce_numeric (fallback_row orig) \<and>
                \<not> is_scopus_indexed_flag (rows ! i) \<and>
                scimago_quartile (rows ! i) = None \<and>
                source_name (rows ! i) = None \<and>
                publication_year (rows ! i) = get (raw_publication_year orig) \<and>
                (distinct (map clean_id (records df)) \<longrightarrow> orig = records df ! i)))"
    if run: "enhance_all_dataset so net S D self df = Returns (rows, self')" for rows self'
  proof -
    from cols run obtain rows0 where
      p: "process_works so S D (records df) details = Inr rows0" and
      r: "rows = map coerce_numeric rows0"
      unfolding details_def by (rule enhance_Returns)
    note la = process_works_Inr [OF found p]
    have len0: "length rows0 = length (records df)"
      using la len by (simp add: list_all2_lengthD)
    have each: "\<exists>orig. first_with_id (clean_id (records df ! i)) (records df) = Some orig \<and>
                rows ! i = coerce_numeric (fallback_row orig) \<and>
                \<not> is_scopus_indexed_flag (rows ! i) \<and>
                scimago_quartile (rows ! i) = None \<and>
                source_name (rows ! i) = None \<and>
                publication_year (rows ! i) = get (raw_publication_year orig) \<and>
                (distinct (map clean_id (records df)) \<longrightarrow> orig = records df ! i)"
      if i: "i < length (records df)" and a: "absent (snd (details ! i))" for i
    proof -
      from la i len obtain orig where
        o: "first_with_id (fst (details ! i)) (records df) = Some orig" and
        one: "process_one so S D orig (snd (details ! i)) = Inr (rows0 ! i)"
        by (auto simp: list_all2_conv_all_nth)
      have o': "first_with_id (clean_id (records df ! i)) (records df) = Some orig"
        using o fst_nth [OF i] by simp
      have "rows0 ! i = fallback_row orig"
        using one process_one_absent [OF a, of so S D orig] by simp
      then have ri: "rows ! i = coerce_numeric (fallback_row orig)"
        using r i len0 by simp
      have d: "orig = records df ! i" if "distinct (map clean_id (records df))"
        using first_with_id_distinct [OF that i] o' by simp
      show ?thesis
        using o' ri d
        by (auto simp: coerce_numeric_def fallback_row_def get_or_def get_def split: field.splits)
    qed
    show ?thesis
      using each r len0 by simp
  qed
  show ?thesis
    unfolding details_def [symmetric] Let_def using total raised rows_ok by blast
qed

lemma dead_fetches:
  "fst (fetch_all dead_network fresh_fetcher (map clean_id (records two_year_table))) =
   [(''W1'', None), (''W1'', None)]"
  by (simp add: two_year_table_def example_raw_def clean_id_def dead_network_def
        fresh_fetcher_def get_work_details_single_def strip_def is_space_def)

lemma dead_years:
  "map_outcome (\<lambda>p. map publication_year (fst p))
     (enhance_all_dataset remdups dead_network {} Map.empty fresh_fetcher two_year_table) =
   Returns [Some 2022, Some 2022]"
  by (simp add: enhance_all_dataset_def two_year_table_def example_raw_def dead_network_def
        fresh_fetcher_def get_work_details_single_def strip_def is_space_def
        first_with_id_def process_one_def fallback_row_def coerce_numeric_def get_or_def
        exact_row_def exact_cell_def exact_int_def)

lemma broken_fetches:
  "fst (fetch_all broken_network fresh_fetcher (map clean_id (records scenario_table))) =
   [(''W1'', Some BodyOther)]"
  by (simp add: scenario_table_def example_raw_def clean_id_def broken_network_def
        fresh_fetcher_def get_work_details_single_def strip_def is_space_def)

lemma broken_raises:
  "enhance_all_dataset remdups broken_network {} Map.empty fresh_fetcher scenario_table =
   Raises AttributeError"
  by (simp add: enhance_all_dataset_def scenario_table_def example_raw_def broken_network_def
        fresh_fetcher_def get_work_details_single_def strip_def is_space_def
        first_with_id_def process_one_def)

text \<open>A year of \<open>2^63\<close> is outside the modelled range of the numeric conversions.\<close>

lemma large_year_unmodelled:
  "enhance_all_dataset remdups dead_network {} Map.empty fresh_fetcher
     \<lparr> columns = [''work_id'', ''publication_year''],
       records = [example_raw\<lparr>raw_publication_year := Val (2 ^ 63)\<rparr>] \<rparr> = Unmodelled"
  by (simp add: enhance_all_dataset_def example_raw_def dead_network_def
        fresh_fetcher_def get_work_details_single_def strip_def is_space_def
        first_with_id_def process_one_def fallback_row_def get_or_def
        exact_row_def exact_cell_def exact_int_def)

text \<open>
  C5 as stated fails for a record that shares its cleaned identifier with an earlier
  record: both fetches give nothing, and the second record (year 2021) gets a row with
  the year of the first (2022), so its own year is not retained.
\<close>

theorem enhance_duplicate_id_takes_first_year:
  "fst (fetch_all dead_network fresh_fetcher (map clean_id (records two_year_table))) =
     [(''W1'', None), (''W1'', None)] \<and>
   map (\<lambda>r. get (raw_publication_year r)) (records two_year_table) = [Some 2022, Some 2021] \<and>
   map_outcome (\<lambda>p. map publication_year (fst p))
     (enhance_all_dataset remdups dead_network {} Map.empty fresh_fetcher two_year_table) =
     Returns [Some 2022, Some 2022]"
  using dead_fetches dead_years
  by (simp add: two_year_table_def example_raw_def get_def)

theorem enhance_keeps_unfetched_records_witness:
  "(\<exists>rows self'.
      enhance_all_dataset remdups dead_network {} Map.empty fresh_fetcher two_year_table =
        Returns (rows, self') \<and>
      length rows = 2 \<and>
      rows ! 0 = coerce_numeric (fallback_row example_raw) \<and>
      publication_year (rows ! 0) = Some 2022) \<and>
   enhance_all_dataset remdups broken_network {} Map.empty fresh_fetcher scenario_table =
     Raises AttributeError \<and>
   process_one remdups {} Map.empty example_raw (Some BodyOther) = Inl AttributeError"
proof -
  have cols: "''work_id'' \<in> set (columns two_year_table)"
    by (simp add: two_year_table_def)
  note t = enhance_keeps_unfetched_records [OF cols, of dead_network fresh_fetcher remdups "{}" Map.empty,
               unfolded dead_fetches Let_def]
  have a: "\<forall>i<length [(''W1'', None), (''W1'', None :: body option)].
              absent (snd ([(''W1'', None), (''W1'', None)] ! i))"
    by (simp add: absent_def nth_Cons split: nat.splits)
  have ex: "\<forall>r. r \<in> set (records two_year_table) \<longrightarrow> exact_raw r"
    by (auto simp: two_year_table_def example_raw_def exact_raw_def exact_cell_def
          exact_int_def get_def)
  from t [THEN conjunct1, rule_format, OF conjI [OF a ex]] obtain rows self' where
    run: "enhance_all_dataset remdups dead_network {} Map.empty fresh_fetcher two_year_table =
            Returns (rows, self')"
    by blast
  note u = t [THEN conjunct2, THEN conjunct2, rule_format, OF run]
  have l: "length rows = 2"
    using u [THEN conjunct1] by (simp add: two_year_table_def)
  have z: "0 < length (records two_year_table)"
    by (simp add: two_year_table_def)
  have az: "absent (snd ([(''W1'', None), (''W1'', None :: body option)] ! 0))"
    by (simp add: absent_def)
  from u [THEN conjunct2, rule_format, OF z az] obtain orig where
    o: "first_with_id (clean_id (records two_year_table ! 0)) (records two_year_table) = Some orig"
    and r: "rows ! 0 = coerce_numeric (fallback_row orig)"
    and y: "publication_year (rows ! 0) = get (raw_publication_year orig)"
    by blast
  have f: "first_with_id (clean_id (records two_year_table ! 0)) (records two_year_table) =
           Some example_raw"
    by (simp add: first_with_id_def two_year_table_def clean_id_def)
  from o f have "orig = example_raw" by simp
  with r y have "rows ! 0 = coerce_numeric (fallback_row example_raw)"
    and "publication_year (rows ! 0) = Some 2022"
    by (simp_all add: example_raw_def get_def)
  with run l have first: "\<exists>rows self'.
      enhance_all_dataset remdups dead_network {} Map.empty fresh_fetcher two_year_table =
        Returns (rows, self') \<and>
      length rows = 2 \<and>
      rows ! 0 = coerce_numeric (fallback_row example_raw) \<and>
      publication_year (rows ! 0) = Some 2022"
    by blast
  have cols2: "''work_id'' \<in> set (columns scenario_table)"
    by (simp add: scenario_table_def)
  note t2 = enhance_keeps_unfetched_records [OF cols2, of broken_network fresh_fetcher remdups "{}" Map.empty,
               unfolded broken_fetches Let_def]
  from t2 [THEN conjunct2, THEN conjunct1, rule_format, OF broken_raises] obtain i orig2 where
    i: "i < length (records scenario_table)" and
    o2: "first_with_id (clean_id (records scenario_table ! i)) (records scenario_table) = Some orig2"
    and one: "process_one remdups {} Map.empty orig2 (snd ([(''W1'', Some BodyOther)] ! i)) =
              Inl AttributeError"
    by blast
  from i have i0: "i = 0"
    by (simp add: scenario_table_def)
  have "first_with_id (clean_id (records scenario_table ! 0)) (records scenario_table) =
        Some example_raw"
    by (simp add: first_with_id_def scenario_table_def clean_id_def)
  with o2 i0 have "orig2 = example_raw" by simp
  with one i0 have "process_one remdups {} Map.empty example_raw (Some BodyOther) =
                    Inl AttributeError"
    by simp
  with first broken_raises show ?thesis by blast
qed

section \<open>Further properties\<close>

text \<open>
  Filter idempotence: filtering a strict table again, with the same registry and the
  same threshold, gives the same table.
\<close>

theorem create_strict_dataset_idempotent:
  "create_strict_dataset S (create_strict_dataset S df q) q = create_strict_dataset S df q"
  by (auto simp: create_strict_dataset_def Let_def intro!: filter_cong)

lemma strict_example:
  "create_strict_dataset {''12345678''}
     [example_row,
      example_row\<lparr>is_scopus_indexed_flag := True, scimago_quartile := Some ''Q1''\<rparr>] ''Q2'' =
   [example_row\<lparr>is_scopus_indexed_flag := True, scimago_quartile := Some ''Q1''\<rparr>]"
  by (simp add: create_strict_dataset_def valid_quartiles_def isin_def example_row_def
        fallback_row_def)

theorem create_strict_dataset_idempotent_witness:
  "create_strict_dataset {''12345678''}
     (create_strict_dataset {''12345678''}
        [example_row,
         example_row\<lparr>is_scopus_indexed_flag := True, scimago_quartile := Some ''Q1''\<rparr>] ''Q2'')
     ''Q2'' =
   [example_row\<lparr>is_scopus_indexed_flag := True, scimago_quartile := Some ''Q1''\<rparr>]"
  using create_strict_dataset_idempotent
          [of "{''12345678''}"
              "[example_row,
                example_row\<lparr>is_scopus_indexed_flag := True, scimago_quartile := Some ''Q1''\<rparr>]"
              "''Q2''"]
        strict_example
  by (simp only:)

text \<open>
  End-to-end scenario: the registry contains \<open>12345678\<close>, the fetched work's venue has
  the ISSN \<open>1234-5678\<close>, and the 2022 table has a row listing that identifier with tier
  \<open>Q2\<close>. The enriched row is indexed with tier \<open>Q2\<close>, and it is in the strict table
  under the threshold \<open>Q3\<close> and under any other threshold.
\<close>

theorem enrich_and_filter_scenario:
  "map_outcome
     (\<lambda>p. (map summary (fst p),
            map summary (create_strict_dataset {''12345678''} (fst p) ''Q3''),
            map summary (create_strict_dataset {''12345678''} (fst p) ''Q2'')))
     (enhance_all_dataset remdups scenario_network {''12345678''} [2022 \<mapsto> [plain_row]]
        fresh_fetcher scenario_table) =
   Returns ([(True, Some ''Q2'', Some ''Journal B'', Some 2022)],
        [(True, Some ''Q2'', Some ''Journal B'', Some 2022)],
        [(True, Some ''Q2'', Some ''Journal B'', Some 2022)])"
  by (simp add: enhance_all_dataset_def scenario_table_def example_raw_def scenario_network_def
        fresh_fetcher_def get_work_details_single_def strip_def is_space_def
        first_with_id_def process_one_def enrich_work_def scenario_work_def blank_work_def
        primary_source_of_def names_of_def concepts_joined_def normalized_issn_list_def
        collect_issns_def upper_def upper_char_def is_scopus_indexed_def coerce_numeric_def
        get_def get_or_def py_or_def get_scimago_quartile_def plain_row_def issn_values_def
        issn_named_def lower_def lower_char_def tier_columns_def tier_labels_def Let_def
        summary_def create_strict_dataset_def valid_quartiles_def isin_def
        exact_row_def exact_cell_def exact_int_def)

end
